theory Spec2Isabelle
  imports Complex_Main
begin

section \<open>Conventions of the embedding\<close>

text \<open>
  The repository is numpy code on \<open>float64\<close> arrays. The embedding idealises \<open>float64\<close>
  arithmetic as arithmetic on \<^typ>\<open>real\<close>: rounding, overflow and underflow are not
  modelled. Where IEEE arithmetic leaves the real numbers (a division by zero gives
  \<open>inf\<close> or \<open>nan\<close> without raising), the model answers \<open>Inl NonFinite\<close> and does not
  follow the computation further. Python exceptions are the other values of
  \<open>failure\<close>.

  An \<open>H\<times>W\<times>3\<close> array is a list of pixels (the rows concatenated): no operation of
  the two operators depends on the two-dimensional shape.
\<close>

datatype failure = NonFinite | ValueError | TypeError | ZeroDivisionError

type_synonym pixel = "real \<times> real \<times> real"
type_synonym frame = "pixel list"

text \<open>\<open>np.clip(x, lo, hi)\<close> is \<open>minimum(maximum(x, lo), hi)\<close>.\<close>

definition clip :: "real \<Rightarrow> real \<Rightarrow> real \<Rightarrow> real" where
  "clip x lo hi = min (max x lo) hi"

section \<open>The histogram estimator (\<open>proposed_itmo.py\<close>, \<open>_histogram\<close>)\<close>

text \<open>\<open>np.diff(c)\<close>: the differences of adjacent entries.\<close>

fun np_diff :: "real list \<Rightarrow> real list" where
  "np_diff (x # y # xs) = (y - x) # np_diff (y # xs)"
| "np_diff xs = []"

text \<open>
  The edges \<open>_histogram\<close> builds from the bin centers, for one center and for two or
  more (it returns before this point when there is no center).
\<close>

definition hist_edges :: "real list \<Rightarrow> real list" where
  "hist_edges c =
     (if length c = 1 then
        (let w = 1 / 2 in [c ! 0 - w, c ! 0 + w])
      else
        (let half = map (\<lambda>d. d / 2) (np_diff c)
         in [c ! 0 - half ! 0] @ map2 (+) (butlast c) half @ [last c + last half]))"

text \<open>
  \<open>np.histogram(x, bins=edges)\<close> with an array of edges, as numpy documents it: bin \<open>i\<close>
  is \<open>[edges[i], edges[i+1])\<close>, except the last bin, which is closed on the right too;
  samples outside the outer edges are counted nowhere; edges that decrease somewhere
  raise \<open>ValueError\<close>.
\<close>

definition in_bin :: "real list \<Rightarrow> nat \<Rightarrow> real \<Rightarrow> bool" where
  "in_bin edges i v =
     (edges ! i \<le> v \<and>
      (if i + 2 = length edges then v \<le> edges ! (i + 1) else v < edges ! (i + 1)))"

definition np_histogram :: "real list \<Rightarrow> real list \<Rightarrow> failure + real list" where
  "np_histogram x edges =
     (if \<not> sorted edges then Inl ValueError
      else Inr (map (\<lambda>i. real (length (filter (in_bin edges i) x))) [0..<length edges - 1]))"

definition histogram :: "real list \<Rightarrow> real list \<Rightarrow> failure + real list" where
  "histogram x centers =
     (if length centers = 0 then Inr []
      else np_histogram x (hist_edges centers))"

section \<open>The inverse tone-map operator (\<open>proposed_itmo.py\<close>, \<open>proposed_itmo\<close>)\<close>

subsection \<open>Constants\<close>

definition l_max_PQ :: real where "l_max_PQ = 10000.0"
definition m_PQ :: real where "m_PQ = 78.8438"
definition n_PQ :: real where "n_PQ = 0.1593"
definition c1_PQ :: real where "c1_PQ = 0.8359"
definition c2_PQ :: real where "c2_PQ = 18.8516"
definition c3_PQ :: real where "c3_PQ = 18.6875"

definition disp_Min :: real where "disp_Min = 0.1"
definition disp_Max :: real where "disp_Max = 100.0"
definition hDR_Min_PQ :: real where "hDR_Min_PQ = 0.0215"
definition hDR_Max_PQ :: real where "hDR_Max_PQ = 0.7518"

definition xmin :: real where "xmin = 0.0623"
definition xmax :: real where "xmax = 0.5081"
definition ymin :: real where "ymin = 0.0215"
definition ymax :: real where "ymax = 0.7518"

definition threshold_low :: nat where "threshold_low = 35"
definition threshold_high :: nat where "threshold_high = 192"

subsection \<open>Bit-depth normalisation and linear light\<close>

text \<open>\<open>2.0 ** (input_bit_depth - 8)\<close> for a bit depth that is a natural number.\<close>

definition scale :: "nat \<Rightarrow> real" where
  "scale input_bit_depth =
     (if 8 \<le> input_bit_depth then 2 ^ (input_bit_depth - 8)
      else 1 / 2 ^ (8 - input_bit_depth))"

definition maxValueY :: "nat \<Rightarrow> real" where
  "maxValueY input_bit_depth = ((256.0 * 1.0) * scale input_bit_depth) - 1.0"

definition minValueY :: "nat \<Rightarrow> real" where
  "minValueY input_bit_depth = (255.0 * 0.0) * scale input_bit_depth"

text \<open>One code value, clamped to the nominal code range, shifted down to 8 bit and divided by 255.\<close>

definition img_normalized :: "nat \<Rightarrow> real \<Rightarrow> real" where
  "img_normalized input_bit_depth v =
     (clip v (minValueY input_bit_depth) (maxValueY input_bit_depth) / scale input_bit_depth) / 255.0"

text \<open>
  The base of \<open>np.power(img_normalized, 2.2)\<close> is never negative (the clamp starts at
  \<open>minValueY = 0\<close>), where numpy's power is \<open>powr\<close>.
\<close>

definition img_light :: "nat \<Rightarrow> real \<Rightarrow> real" where
  "img_light input_bit_depth v = img_normalized input_bit_depth v powr 2.2"

definition y_SDR :: "nat \<Rightarrow> pixel \<Rightarrow> real" where
  "y_SDR input_bit_depth px =
     (case px of (r, g, b) \<Rightarrow>
        0.2126 * img_light input_bit_depth r + 0.7152 * img_light input_bit_depth g
          + 0.0722 * img_light input_bit_depth b)"

definition L_disp :: "nat \<Rightarrow> pixel \<Rightarrow> real" where
  "L_disp input_bit_depth px = y_SDR input_bit_depth px * (disp_Max - disp_Min) + disp_Min"

text \<open>The channels \<open>red_SDR_Light\<close>, \<open>green_SDR_Light\<close>, \<open>blue_SDR_Light\<close> of one pixel.\<close>

definition SDR_Light :: "nat \<Rightarrow> pixel \<Rightarrow> pixel" where
  "SDR_Light input_bit_depth px =
     (case px of (r, g, b) \<Rightarrow>
        (img_light input_bit_depth r * (disp_Max - disp_Min) + disp_Min,
         img_light input_bit_depth g * (disp_Max - disp_Min) + disp_Min,
         img_light input_bit_depth b * (disp_Max - disp_Min) + disp_Min))"

subsection \<open>Forward PQ\<close>

text \<open>
  \<open>_to_pq\<close>. The base of the first power is a maximum with 0, the denominator is at
  least 1 and the base of the second power is positive, so every operation stays in
  the real numbers.
\<close>

definition to_pq :: "real \<Rightarrow> real" where
  "to_pq L =
     (let t = (max (L / l_max_PQ) 0.0) powr n_PQ;
          num = c2_PQ * t + c1_PQ;
          den = c3_PQ * t + 1.0
      in (num / den) powr m_PQ)"

definition l_disp_PQ :: "nat \<Rightarrow> pixel \<Rightarrow> real" where
  "l_disp_PQ input_bit_depth px = to_pq (L_disp input_bit_depth px)"

definition SDR_PQ :: "nat \<Rightarrow> pixel \<Rightarrow> pixel" where
  "SDR_PQ input_bit_depth px =
     (case SDR_Light input_bit_depth px of (r, g, b) \<Rightarrow> (to_pq r, to_pq g, to_pq b))"

subsection \<open>Histogram of the PQ luma and region probabilities\<close>

text \<open>\<open>np.linspace(start, stop, num)\<close>.\<close>

definition linspace :: "real \<Rightarrow> real \<Rightarrow> nat \<Rightarrow> real list" where
  "linspace start stop num =
     (if num = 1 then [start]
      else map (\<lambda>i. start + real i * ((stop - start) / real (num - 1))) [0..<num])"

definition num_bins :: "nat \<Rightarrow> nat" where
  "num_bins input_bit_depth = 2 ^ input_bit_depth"

definition centers :: "nat \<Rightarrow> real list" where
  "centers input_bit_depth = linspace xmin xmax (num_bins input_bit_depth)"

definition n_light :: "frame \<Rightarrow> nat \<Rightarrow> failure + real list" where
  "n_light input_frame input_bit_depth =
     histogram (map (l_disp_PQ input_bit_depth) input_frame) (centers input_bit_depth)"

text \<open>
  The three probabilities \<open>p1\<close>, \<open>p2\<close>, \<open>p3\<close> after the \<open>np.sum\<close> calls. In the branch for
  an empty histogram \<open>np.zeros\<close> raises \<open>ValueError\<close> for a negative length.
\<close>

definition region_probs :: "real list \<Rightarrow> failure + (real \<times> real \<times> real)" where
  "region_probs n =
     (let total = sum_list n in
      if total = 0 then
        (if length n < threshold_high then Inl ValueError
         else Inr (sum_list (replicate threshold_low 0),
                   sum_list (replicate (threshold_high - threshold_low) 0),
                   sum_list (replicate (length n - threshold_high) 0)))
      else
        Inr (sum_list (map (\<lambda>c. c / total) (take threshold_low n)),
             sum_list (map (\<lambda>c. c / total)
                        (take (threshold_high - threshold_low) (drop threshold_low n))),
             sum_list (map (\<lambda>c. c / total) (drop threshold_high n))))"

subsection \<open>The per-frame curve\<close>

text \<open>
  What the expansion needs of the solve: slopes, intercepts, and the two values the
  masks compare the luma with (the source's \<open>x1\<close>, \<open>x2\<close> at that point).
\<close>

record curve =
  cs1 :: real
  cs2 :: real
  cs3 :: real
  ca1 :: real
  ca2 :: real
  ca3 :: real
  cx1 :: real
  cx2 :: real

text \<open>
  The solve, with the source's names and its reassignments of \<open>x1\<close>, \<open>x2\<close>, \<open>a1\<close>,
  \<open>a2\<close>, \<open>a3\<close>. All five divisions by a computed denominator are numpy scalar
  divisions: a zero denominator gives \<open>inf\<close> or \<open>nan\<close>, here \<open>Inl NonFinite\<close>.
\<close>

definition itmo_curve :: "real \<Rightarrow> real \<Rightarrow> real \<Rightarrow> real \<Rightarrow> real \<Rightarrow> failure + curve" where
  "itmo_curve p1 p2 p3 wB wC =
     (let x1 = 0.1233;
          x2 = (0.3975 :: real);
          n1 = 35.0;
          n2 = 157.0;
          n3 = 64.0;
          delta1 = 0.0610;
          delta2 = 0.2742;
          delta3 = 0.1106;
          r = 0.2845;
          p_1 = (1.0 - p1) / 2.0;
          p_2 = (1.0 - p2) / 2.0;
          p_3 = (1.0 - p3) / 2.0;
          a1 = p_1 * 0.3073;
          a2 = p_2 * 11.5866;
          a3 = p_3 * 13.2019;
          b1 = p_1 * 3.2207;
          b2 = p_2 * 40.7965;
          b3 = p_3 * 28.9940;
          fc = 0.0809;
          fb = 13.6971;
          w1 = wC / fc;
          w2 = wB / fb;
          denom1 = (w1 * delta1 * delta1 * p_1 + w2 * a1 - 2.0 * w2 * xmin * b1
                      + w2 * n1 * xmin * xmin + w2 * n2 * delta1 * delta1);
          denom2 = (w1 * delta2 * delta2 * p_2 + w2 * a2 - 2.0 * w2 * x1 * b2
                      + w2 * n2 * x1 * x1);
          denom3 = (w1 * delta3 * delta3 * p_3 + w2 * a3 - 2.0 * w2 * xmax * b3
                      + w2 * n3 * xmax * xmax)
      in
      if denom1 = 0 \<or> denom2 = 0 \<or> denom3 = 0 then Inl NonFinite
      else
     (let a = (w2 * n2 * delta1 * x1 - w2 * delta1 * b2) / denom1;
          b = (w2 * n1 * (ymin - xmin) * xmin - w2 * (ymin - xmin) * b1
                 - w2 * n2 * (ymin - xmin) * delta1) / denom1;
          c = (- delta1) / (2.0 * denom1);
          d = (w2 * n2 * delta1 * x1 - w2 * delta1 * b2) / denom2;
          e = (w2 * n2 * (ymin - xmin) * x1 - w2 * (ymin - xmin) * b2) / denom2;
          f = (- delta2) / (2.0 * denom2);
          g = (w2 * n3 * (ymax - xmax) * xmax - w2 * (ymax - xmax) * b3) / denom3;
          h = (- delta3) / (2.0 * denom3);
          ad = 1.0 - a * d
      in
      if ad = 0 then Inl NonFinite
      else
     (let x1 = ((a * e + b) / ad);
          x2 = ((b * d + e) / ad);
          c1lam = (a * f + c) / ad;
          c2lam = (c * d + f) / ad;
          lam_num = r - (x1 * delta1 + x2 * delta2 + g * delta3);
          lam_den = (c1lam * delta1 + c2lam * delta2 + h * delta3)
      in
      if lam_den = 0 then Inl NonFinite
      else
     (let lam = lam_num / lam_den;
          x1 = x1 + c1lam * lam;
          x2 = x2 + c2lam * lam;
          X3 = g + h * lam;
          s1 = x1 + 1.0;
          s2 = x2 + 1.0;
          s3 = X3 + 1.0;
          a1 = ymin - s1 * xmin;
          a2 = (s1 - s2) * x1 + a1;
          a3 = ymax - s3 * xmax
      in Inr \<lparr>cs1 = s1, cs2 = s2, cs3 = s3, ca1 = a1, ca2 = a2, ca3 = a3,
               cx1 = x1, cx2 = x2\<rparr>))))"

subsection \<open>Applying the curve\<close>

text \<open>The expanded luma of one sample: the two \<open>np.where\<close> passes, then the clamp.\<close>

definition lhdr_PQ :: "curve \<Rightarrow> real \<Rightarrow> real" where
  "lhdr_PQ cv l =
     (let y = cs3 cv * l + ca3 cv;
          mask2 = l < cx2 cv;
          y = (if mask2 then cs2 cv * l + ca2 cv else y);
          mask1 = l < cx1 cv;
          y = (if mask1 then cs1 cv * l + ca1 cv else y)
      in clip y ymin ymax)"

text \<open>
  The clamped PQ channels of one pixel, before the gamut matrix. The division by the
  PQ luma is unguarded in the source.
\<close>

definition HDR_PQ :: "curve \<Rightarrow> nat \<Rightarrow> pixel \<Rightarrow> failure + pixel" where
  "HDR_PQ cv input_bit_depth px =
     (let l = l_disp_PQ input_bit_depth px in
      if l = 0 then Inl NonFinite
      else
        (let l_ratio_PQ = lhdr_PQ cv l / l in
         case SDR_PQ input_bit_depth px of (red_SDR_PQ, green_SDR_PQ, blue_SDR_PQ) \<Rightarrow>
           Inr (clip (l_ratio_PQ * red_SDR_PQ) hDR_Min_PQ hDR_Max_PQ,
                clip (l_ratio_PQ * green_SDR_PQ) hDR_Min_PQ hDR_Max_PQ,
                clip (l_ratio_PQ * blue_SDR_PQ) hDR_Min_PQ hDR_Max_PQ)))"

text \<open>BT.709 to BT.2020 and the clamp to \<open>[0, 1]\<close>.\<close>

definition imgOut_norm2020 :: "pixel \<Rightarrow> pixel" where
  "imgOut_norm2020 px =
     (case px of (red_HDR_PQ, green_HDR_PQ, blue_HDR_PQ) \<Rightarrow>
        (clip (0.6274039 * red_HDR_PQ + 0.32928304 * green_HDR_PQ + 0.04331307 * blue_HDR_PQ) 0.0 1.0,
         clip (0.06909729 * red_HDR_PQ + 0.9195040 * green_HDR_PQ + 0.01136232 * blue_HDR_PQ) 0.0 1.0,
         clip (0.01639144 * red_HDR_PQ + 0.08801331 * green_HDR_PQ + 0.89559525 * blue_HDR_PQ) 0.0 1.0))"

text \<open>A list of results is a result: the first failure, or all the values.\<close>

fun collect :: "(failure + 'a) list \<Rightarrow> failure + 'a list" where
  "collect [] = Inr []"
| "collect (x # xs) =
     (case x of
        Inl e \<Rightarrow> Inl e
      | Inr v \<Rightarrow> (case collect xs of Inl e \<Rightarrow> Inl e | Inr vs \<Rightarrow> Inr (v # vs)))"

text \<open>The clamped PQ channels of every pixel before the gamut matrix, and the operator.\<close>

definition itmo_HDR_PQ :: "frame \<Rightarrow> nat \<Rightarrow> real \<Rightarrow> real \<Rightarrow> failure + frame" where
  "itmo_HDR_PQ input_frame input_bit_depth wB wC =
     (case n_light input_frame input_bit_depth of
        Inl err \<Rightarrow> Inl err
      | Inr n \<Rightarrow>
          (case region_probs n of
             Inl err \<Rightarrow> Inl err
           | Inr (p1, p2, p3) \<Rightarrow>
               (case itmo_curve p1 p2 p3 wB wC of
                  Inl err \<Rightarrow> Inl err
                | Inr cv \<Rightarrow> collect (map (HDR_PQ cv input_bit_depth) input_frame))))"

definition proposed_itmo :: "frame \<Rightarrow> nat \<Rightarrow> real \<Rightarrow> real \<Rightarrow> failure + frame" where
  "proposed_itmo input_frame input_bit_depth wB wC =
     (case itmo_HDR_PQ input_frame input_bit_depth wB wC of
        Inl err \<Rightarrow> Inl err
      | Inr hdr \<Rightarrow> Inr (map imgOut_norm2020 hdr))"

section \<open>The tone-map operator (\<open>proposed_tmo.py\<close>)\<close>

definition L_MAX_PQ :: real where "L_MAX_PQ = 10000.0"
definition M_PQ :: real where "M_PQ = 78.8438"
definition N_PQ :: real where "N_PQ = 0.1593"
definition tmo_c1_PQ :: real where "tmo_c1_PQ = 0.8359"
definition tmo_c2_PQ :: real where "tmo_c2_PQ = 18.8516"
definition tmo_c3_PQ :: real where "tmo_c3_PQ = 18.6875"

text \<open>
  \<open>_from_pq\<close>. Both powers have a base that is a maximum with 0 and a positive
  exponent. The division is by a computed denominator: at zero numpy answers \<open>inf\<close>.
\<close>

definition from_pq :: "real \<Rightarrow> failure + real" where
  "from_pq P =
     (let P_root = (max P 0.0) powr (1.0 / M_PQ);
          num = max (P_root - tmo_c1_PQ) 0.0;
          den = (tmo_c2_PQ - tmo_c3_PQ * P_root)
      in if den = 0 then Inl NonFinite
         else Inr (L_MAX_PQ * (max (num / den) 0.0) powr (1.0 / N_PQ)))"

text \<open>The keyword parameters of \<open>proposed_tmo\<close> other than the curve selector.\<close>

record tmo_params =
  hDRmin_PQ :: real
  hDRmax_PQ :: real
  sDRmin_PQ :: real
  sDRmax_PQ :: real
  sDRmin :: real
  sDRmax :: real
  gammaSDR :: real
  alpha :: real

definition tmo_defaults :: tmo_params where
  "tmo_defaults =
     \<lparr>hDRmin_PQ = 0.0215, hDRmax_PQ = 0.7518, sDRmin_PQ = 0.0623, sDRmax_PQ = 0.5081,
      sDRmin = 0.1, sDRmax = 100.0, gammaSDR = 2.2, alpha = 1.0\<rparr>"

text \<open>The clamped input channels of one pixel, and their BT.2020 luma.\<close>

definition imgIn_HDR_PQ :: "tmo_params \<Rightarrow> pixel \<Rightarrow> pixel" where
  "imgIn_HDR_PQ p px =
     (case px of (r, g, b) \<Rightarrow>
        (clip r (hDRmin_PQ p) (hDRmax_PQ p), clip g (hDRmin_PQ p) (hDRmax_PQ p),
         clip b (hDRmin_PQ p) (hDRmax_PQ p)))"

definition y_HDR_PQ :: "tmo_params \<Rightarrow> pixel \<Rightarrow> real" where
  "y_HDR_PQ p px =
     (case imgIn_HDR_PQ p px of (red_HDR_PQ, green_HDR_PQ, blue_HDR_PQ) \<Rightarrow>
        0.2627 * red_HDR_PQ + 0.6779 * green_HDR_PQ + 0.0593 * blue_HDR_PQ)"

text \<open>The fixed three-segment curve of the branch \<open>mappingCurve == "PiecewiseLinear"\<close>.\<close>

definition tmo_piecewise :: "real \<Rightarrow> real" where
  "tmo_piecewise y_in =
     (let x1 = 0.1310; x2 = 0.4597;
          s1 = 0.5570; s2 = 0.8339; s3 = 0.3787;
          a1 = 0.0503; a2 = 0.0141; a3 = 0.2233;
          y = s3 * y_in + a3;
          mask2 = y_in < x2;
          y = (if mask2 then s2 * y_in + a2 else y);
          mask1 = y_in < x1;
          y = (if mask1 then s1 * y_in + a1 else y)
      in y)"

text \<open>
  The compressed luma \<open>y_SDR_PQ\<close>. Every other selector takes the power curve, whose
  exponent is not an integer: numpy answers \<open>nan\<close> for a negative base.
\<close>

definition y_SDR_PQ :: "string \<Rightarrow> real \<Rightarrow> failure + real" where
  "y_SDR_PQ mappingCurve y_in =
     (if mappingCurve = ''PiecewiseLinear'' then Inr (tmo_piecewise y_in)
      else
        (let c1 = 0.6012; c2 = 0.5902
         in if y_in < 0 then Inl NonFinite else Inr (c1 * y_in powr c2)))"

text \<open>\<open>np.divide(y_SDR_PQ, y_HDR_PQ, out=zeros, where=(y_HDR_PQ != 0))\<close>.\<close>

definition ratio :: "real \<Rightarrow> real \<Rightarrow> real" where
  "ratio y_out y_in = (if y_in \<noteq> 0 then y_out / y_in else 0)"

text \<open>The three channels of one pixel after the colour adjustment, before the clamp.\<close>

definition tmo_scaled :: "tmo_params \<Rightarrow> string \<Rightarrow> pixel \<Rightarrow> failure + pixel" where
  "tmo_scaled p mappingCurve px =
     (case y_SDR_PQ mappingCurve (y_HDR_PQ p px) of
        Inl err \<Rightarrow> Inl err
      | Inr y_out \<Rightarrow>
          (let scale = alpha p * ratio y_out (y_HDR_PQ p px) in
           case imgIn_HDR_PQ p px of (red_HDR_PQ, green_HDR_PQ, blue_HDR_PQ) \<Rightarrow>
             Inr (scale * red_HDR_PQ, scale * green_HDR_PQ, scale * blue_HDR_PQ)))"

text \<open>One channel from the scaled PQ value to normalised SDR light.\<close>

definition img_SDR_Normalized :: "tmo_params \<Rightarrow> real \<Rightarrow> failure + real" where
  "img_SDR_Normalized p v =
     (case from_pq (clip v (sDRmin_PQ p) (sDRmax_PQ p)) of
        Inl err \<Rightarrow> Inl err
      | Inr lin \<Rightarrow>
          if sDRmax p - sDRmin p = 0 then Inl NonFinite
          else Inr ((clip lin (sDRmin p) (sDRmax p) - sDRmin p) / (sDRmax p - sDRmin p)))"

text \<open>BT.2020 to BT.709 and the clamp to \<open>[0, 1]\<close>.\<close>

definition imgOut_709 :: "pixel \<Rightarrow> pixel" where
  "imgOut_709 px =
     (case px of (r2020, g2020, b2020) \<Rightarrow>
        (clip (1.6605 * r2020 - 0.5876 * g2020 - 0.0728 * b2020) 0.0 1.0,
         clip (- 0.1246 * r2020 + 1.1329 * g2020 - 0.0083 * b2020) 0.0 1.0,
         clip (- 0.0182 * r2020 - 0.1006 * g2020 + 1.1187 * b2020) 0.0 1.0))"

text \<open>
  The gamma encode of one channel. Its base is in \<open>[0, 1]\<close>; a zero base with a
  negative exponent gives \<open>inf\<close>.
\<close>

definition gamma_encode :: "tmo_params \<Rightarrow> real \<Rightarrow> failure + real" where
  "gamma_encode p v =
     (if v = 0 \<and> 1.0 / gammaSDR p < 0 then Inl NonFinite
      else Inr (v powr (1.0 / gammaSDR p)))"

definition tmo_pixel :: "tmo_params \<Rightarrow> string \<Rightarrow> pixel \<Rightarrow> failure + pixel" where
  "tmo_pixel p mappingCurve px =
     (case tmo_scaled p mappingCurve px of
        Inl err \<Rightarrow> Inl err
      | Inr (red_SDR_PQ, green_SDR_PQ, blue_SDR_PQ) \<Rightarrow>
          (case (img_SDR_Normalized p red_SDR_PQ, img_SDR_Normalized p green_SDR_PQ,
                 img_SDR_Normalized p blue_SDR_PQ) of
             (Inr r2020, Inr g2020, Inr b2020) \<Rightarrow>
               (case imgOut_709 (r2020, g2020, b2020) of (r709, g709, b709) \<Rightarrow>
                  (case (gamma_encode p r709, gamma_encode p g709, gamma_encode p b709) of
                     (Inr r, Inr g, Inr b) \<Rightarrow> Inr (r, g, b)
                   | _ \<Rightarrow> Inl NonFinite))
           | _ \<Rightarrow> Inl NonFinite))"

text \<open>
  The operator. \<open>1.0 / gammaSDR\<close> is a division of Python floats, which raises at zero;
  it is the only statement that can raise, whatever the arrays hold.
\<close>

definition proposed_tmo :: "frame \<Rightarrow> string \<Rightarrow> tmo_params \<Rightarrow> failure + frame" where
  "proposed_tmo imgIn_HDR mappingCurve p =
     (if gammaSDR p = 0 then Inl ZeroDivisionError
      else collect (map (tmo_pixel p mappingCurve) imgIn_HDR))"

section \<open>The orchestrator (\<open>sdr_hdr_sdr_pipeline.py\<close>, \<open>process_one_file\<close>)\<close>

text \<open>
  \<open>process_one_file\<close> receives the two operators as callables and calls the second one
  with a keyword argument. A Python call binds positional arguments to the declared
  parameters in order and keyword arguments by name; a keyword that names no
  parameter, a parameter bound twice, too many positional arguments and a missing
  required parameter each raise \<open>TypeError\<close>.
\<close>

datatype py_value = PyArray frame | PyStr string | PyFloat real | PyInt int

type_synonym py_callable = "py_value list \<Rightarrow> (string \<times> py_value) list \<Rightarrow> failure + frame"

definition bind_arguments ::
  "string list \<Rightarrow> py_value list \<Rightarrow> (string \<times> py_value) list \<Rightarrow> failure + (string \<rightharpoonup> py_value)" where
  "bind_arguments names args kwargs =
     (if length names < length args then Inl TypeError
      else if \<exists>k \<in> set (map fst kwargs). k \<notin> set names then Inl TypeError
      else if \<exists>k \<in> set (map fst kwargs). k \<in> set (take (length args) names) then Inl TypeError
      else Inr (map_of (zip names args @ kwargs)))"

text \<open>The parameters \<open>proposed_tmo\<close> declares, in order.\<close>

definition tmo_parameter_names :: "string list" where
  "tmo_parameter_names =
     [''imgIn_HDR'', ''mappingCurve'', ''hDRmin_PQ'', ''hDRmax_PQ'', ''sDRmin_PQ'',
      ''sDRmax_PQ'', ''sDRmin'', ''sDRmax'', ''gammaSDR'', ''alpha'']"

definition float_argument :: "(string \<rightharpoonup> py_value) \<Rightarrow> string \<Rightarrow> real \<Rightarrow> failure + real" where
  "float_argument m name dflt =
     (case m name of None \<Rightarrow> Inr dflt | Some (PyFloat x) \<Rightarrow> Inr x | Some _ \<Rightarrow> Inl TypeError)"

text \<open>
  \<open>proposed_tmo\<close> as a callable. A selector that is not a string is not equal to
  \<open>"PiecewiseLinear"\<close>. The model answers \<open>TypeError\<close> for an argument that is not an
  array where the frame is expected or not a float where a float is expected; numpy's
  coercions of such arguments are not modelled.
\<close>

definition tmo_callable :: py_callable where
  "tmo_callable args kwargs =
     (case bind_arguments tmo_parameter_names args kwargs of
        Inl err \<Rightarrow> Inl err
      | Inr m \<Rightarrow>
          (case m ''imgIn_HDR'' of
             Some (PyArray imgIn_HDR) \<Rightarrow>
               (let mappingCurve =
                      (case m ''mappingCurve'' of None \<Rightarrow> ''Gamma'' | Some (PyStr s) \<Rightarrow> s
                       | Some _ \<Rightarrow> ''Gamma'')
                in
                case (float_argument m ''hDRmin_PQ'' (hDRmin_PQ tmo_defaults),
                      float_argument m ''hDRmax_PQ'' (hDRmax_PQ tmo_defaults),
                      float_argument m ''sDRmin_PQ'' (sDRmin_PQ tmo_defaults),
                      float_argument m ''sDRmax_PQ'' (sDRmax_PQ tmo_defaults),
                      float_argument m ''sDRmin'' (sDRmin tmo_defaults),
                      float_argument m ''sDRmax'' (sDRmax tmo_defaults),
                      float_argument m ''gammaSDR'' (gammaSDR tmo_defaults),
                      float_argument m ''alpha'' (alpha tmo_defaults)) of
                  (Inr v1, Inr v2, Inr v3, Inr v4, Inr v5, Inr v6, Inr v7, Inr v8) \<Rightarrow>
                    proposed_tmo imgIn_HDR mappingCurve
                      \<lparr>hDRmin_PQ = v1, hDRmax_PQ = v2, sDRmin_PQ = v3, sDRmax_PQ = v4,
                       sDRmin = v5, sDRmax = v6, gammaSDR = v7, alpha = v8\<rparr>
                | _ \<Rightarrow> Inl TypeError)
           | _ \<Rightarrow> Inl TypeError))"

text \<open>
  \<open>proposed_itmo\<close> as a callable. A negative bit depth gives no bin at all, and then
  \<open>np.zeros\<close> raises for the negative length of the third region.
\<close>

definition itmo_callable :: py_callable where
  "itmo_callable args kwargs =
     (case bind_arguments [''input_frame'', ''input_bit_depth'', ''wB'', ''wC''] args kwargs of
        Inl err \<Rightarrow> Inl err
      | Inr m \<Rightarrow>
          (case (m ''input_frame'', m ''input_bit_depth'',
                 float_argument m ''wB'' 0.5, float_argument m ''wC'' 0.5) of
             (Some (PyArray input_frame), None, Inr wB, Inr wC) \<Rightarrow>
               proposed_itmo input_frame 8 wB wC
           | (Some (PyArray input_frame), Some (PyInt d), Inr wB, Inr wC) \<Rightarrow>
               (if 0 \<le> d then proposed_itmo input_frame (nat d) wB wC else Inl ValueError)
           | _ \<Rightarrow> Inl TypeError))"



section \<open>Auxiliary definitions of the proofs\<close>

text \<open>The rational function of \<open>t\<close> that \<open>_to_pq\<close> raises to the power \<open>m_PQ\<close>.\<close>

definition pq_ratio :: "real \<Rightarrow> real" where
  "pq_ratio t = (c2_PQ * t + c1_PQ) / (c3_PQ * t + 1.0)"

text \<open>All three channels of a pixel lie in \<open>[lo, hi]\<close>.\<close>

definition in_range :: "real \<Rightarrow> real \<Rightarrow> pixel \<Rightarrow> bool" where
  "in_range lo hi px = (case px of (r, g, b) \<Rightarrow> lo \<le> r \<and> r \<le> hi \<and> lo \<le> g \<and> g \<le> hi \<and> lo \<le> b \<and> b \<le> hi)"

text \<open>
  The curve that \<open>itmo_curve\<close> returns for the probabilities \<open>(0, 0, 1)\<close> of a frame
  whose luma is all in the bright region and the weights \<open>wB = 1 / 400\<close>, \<open>wC = 1 / 2\<close>.
\<close>

definition example_curve :: curve where
  "example_curve =
     \<lparr>cs1 = 3903402555651370907254177691687 / 3088517228132899052576134886819,
       cs2 = 3267389685053439614330435824775 / 3088517228132899052576134886819,
       cs3 = 20280620690218253354510686537029 / 6177034456265798105152269773638,
       ca1 = - (441947147030557694728870925313729 / 7721293070332247631440337217047500),
       ca2 = - (69267486620164090307890409011619002035713113334654955162798051 / 23847346671184315027375507293400643750901690497464854849846902500),
       ca3 = - (11321377736958535027946806827286773 / 12354068912531596210304539547276000),
       cx1 = 814885327518471854678042804868 / 3088517228132899052576134886819,
       cx2 = 178872456920540561754300937956 / 3088517228132899052576134886819\<rparr>"

text \<open>
  The segment that the two \<open>np.where\<close> passes of the ITMO select for a luma sample: the
  pass with \<open>mask1\<close> runs last and overrides the pass with \<open>mask2\<close>.
\<close>

definition itmo_segment :: "curve \<Rightarrow> real \<Rightarrow> nat" where
  "itmo_segment cv l = (if l < cx1 cv then 1 else if l < cx2 cv then 2 else 3)"

section \<open>Histogram edges and bin membership\<close>

lemma length_np_diff: "length (np_diff c) = length c - 1"
  by (induction c rule: np_diff.induct) simp_all

lemma nth_np_diff: "Suc i < length c \<Longrightarrow> np_diff c ! i = c ! Suc i - c ! i"
proof (induction c arbitrary: i rule: np_diff.induct)
  case (1 x y xs)
  then show ?case by (cases i) simp_all
qed simp_all

lemma length_hist_edges: "c \<noteq> [] \<Longrightarrow> length (hist_edges c) = Suc (length c)"
  by (cases c) (simp_all add: hist_edges_def Let_def length_np_diff)

lemma hist_edges_0:
  assumes "2 \<le> length c"
  shows "hist_edges c ! 0 = c ! 0 - (c ! 1 - c ! 0) / 2"
  using assms by (simp add: hist_edges_def Let_def nth_np_diff length_np_diff)

lemma length_mids: "length (map2 (+) (butlast c) (map (\<lambda>d. d / 2) (np_diff c))) = length c - 1"
  by (simp add: length_np_diff)

lemma hist_edges_mid:
  assumes "2 \<le> length c" "1 \<le> i" "i < length c"
  shows "hist_edges c ! i = (c ! (i - 1) + c ! i) / 2"
proof -
  obtain j where j: "i = Suc j" using assms(2) by (cases i) auto
  let ?mids = "map2 (+) (butlast c) (map (\<lambda>d. d / 2) (np_diff c))"
  have jl: "j < length ?mids" using assms j by (simp add: length_np_diff)
  have "hist_edges c ! i = (?mids @ [last c + last (map (\<lambda>d. d / 2) (np_diff c))]) ! j"
    using assms j by (simp add: hist_edges_def Let_def)
  also have "\<dots> = ?mids ! j"
    using jl by (simp only: nth_append if_True)
  also have "\<dots> = c ! j + (c ! Suc j - c ! j) / 2"
    using assms j by (simp add: length_np_diff nth_np_diff nth_butlast)
  finally show ?thesis using j by (simp add: field_simps)
qed

lemma hist_edges_last:
  assumes "2 \<le> length c"
  shows "hist_edges c ! length c = last c + (last c - c ! (length c - 2)) / 2"
proof -
  let ?half = "map (\<lambda>d. d / 2) (np_diff c)"
  let ?mids = "map2 (+) (butlast c) ?half"
  have ne: "np_diff c \<noteq> []" using assms length_np_diff[of c] by (cases "np_diff c") auto
  obtain k where k: "length c = Suc k" using assms by (cases "length c") auto
  have lm: "length ?mids = k" using k by (simp add: length_np_diff)
  have "hist_edges c ! length c = (?mids @ [last c + last ?half]) ! k"
    using assms k by (simp add: hist_edges_def Let_def)
  also have "\<dots> = last c + last ?half"
    using nth_append_length[of ?mids "last c + last ?half" "[]"] lm by simp
  also have "last ?half = np_diff c ! (length c - 2) / 2"
    using ne assms by (simp add: last_map last_conv_nth length_np_diff numeral_2_eq_2)
  also have "np_diff c ! (length c - 2) = c ! (length c - 1) - c ! (length c - 2)"
    using assms nth_np_diff[of "length c - 2" c] by (simp add: numeral_2_eq_2 Suc_diff_Suc)
  finally show ?thesis using assms by (cases c) (simp_all add: last_conv_nth)
qed

lemma sorted_hist_edges:
  assumes "sorted_wrt (<) c" "c \<noteq> []"
  shows "sorted_wrt (<) (hist_edges c)"
proof (cases "length c = 1")
  case True
  then show ?thesis by (simp add: hist_edges_def Let_def)
next
  case False
  moreover have "length c \<noteq> 0" using assms(2) by simp
  ultimately have l2: "2 \<le> length c" by linarith
  have mono: "\<And>i j. i < j \<Longrightarrow> j < length c \<Longrightarrow> c ! i < c ! j"
    using assms(1) by (simp add: sorted_wrt_iff_nth_less)
  have step: "hist_edges c ! i < hist_edges c ! Suc i" if il: "i < length c" for i
  proof -
    consider "i = 0" "Suc i < length c" | "i = 0" "Suc i = length c" | "0 < i" "Suc i < length c" | "0 < i" "Suc i = length c"
      using il by (cases "i = 0"; cases "Suc i = length c") auto
    then show ?thesis
    proof cases
      case 1
      have e0: "hist_edges c ! i = c ! 0 - (c ! 1 - c ! 0) / 2"
        using hist_edges_0[OF l2] 1 by simp
      have e1: "hist_edges c ! Suc i = (c ! 0 + c ! 1) / 2"
        using hist_edges_mid[OF l2, of 1] l2 1 by simp
      have "c ! 0 < c ! 1" using mono[of 0 1] l2 by simp
      then show ?thesis unfolding e0 e1 by (simp add: field_simps)
    next
      case 2
      then show ?thesis using l2 by simp
    next
      case 3
      have e0: "hist_edges c ! i = (c ! (i - 1) + c ! i) / 2"
        using hist_edges_mid[OF l2, of i] 3 by simp
      have e1: "hist_edges c ! Suc i = (c ! i + c ! Suc i) / 2"
        using hist_edges_mid[OF l2, of "Suc i"] 3 by simp
      have "c ! (i - 1) < c ! Suc i" using mono[of "i - 1" "Suc i"] 3 by simp
      then show ?thesis unfolding e0 e1 by (simp add: field_simps)
    next
      case 4
      have lc: "length c = Suc i" using 4 by simp
      have "last c = c ! i" using lc assms(2) by (simp add: last_conv_nth)
      moreover have "length c - 2 = i - 1" using lc by simp
      ultimately have e1: "hist_edges c ! Suc i = c ! i + (c ! i - c ! (i - 1)) / 2"
        using hist_edges_last[OF l2] lc by simp
      have e0: "hist_edges c ! i = (c ! (i - 1) + c ! i) / 2"
        using hist_edges_mid[OF l2, of i] 4 by simp
      have "c ! (i - 1) < c ! i" using mono[of "i - 1" i] 4 by simp
      then show ?thesis unfolding e0 e1 by (simp add: field_simps)
    qed
  qed
  show ?thesis
    using step assms(2) by (simp add: sorted_wrt_iff_nth_Suc_transp length_hist_edges)
qed

lemma histogram_counts:
  assumes "sorted_wrt (<) c" "c \<noteq> []"
  shows "histogram x c =
     Inr (map (\<lambda>i. real (length (filter (\<lambda>v. hist_edges c ! i \<le> v \<and>
             (if i = length c - 1 then v \<le> hist_edges c ! (i + 1) else v < hist_edges c ! (i + 1))) x)))
           [0..<length c])"
proof -
  have s: "sorted (hist_edges c)"
    using sorted_hist_edges[OF assms] by (rule strict_sorted_imp_sorted)
  have "in_bin (hist_edges c) i = (\<lambda>v. hist_edges c ! i \<le> v \<and>
             (if i = length c - 1 then v \<le> hist_edges c ! (i + 1) else v < hist_edges c ! (i + 1)))"
    if "i < length c" for i
    using that assms(2) by (auto simp: in_bin_def length_hist_edges fun_eq_iff)
  then show ?thesis
    using s assms(2) by (simp add: histogram_def np_histogram_def length_hist_edges)
qed

text \<open>
  C5: for two or more strictly increasing centers the first edge lies half the first gap
  below the first center, every interior edge is the midpoint of its two neighbouring
  centers and the last edge lies half the last gap above the last center; for one
  center the edges are the center minus and plus 0.5; for no center the result has
  length zero; bin \<open>i\<close> counts the samples \<open>v\<close> with \<open>edge i \<le> v < edge (i + 1)\<close>, the last
  bin those with \<open>edge i \<le> v \<le> edge (i + 1)\<close>; centers \<open>[1, 3, 7]\<close> give edges
  \<open>[0, 2, 5, 9]\<close>.
\<close>

theorem histogram_edges_and_bins:
  assumes "sorted_wrt (<) c"
  shows "(2 \<le> length c \<longrightarrow>
            hist_edges c ! 0 = c ! 0 - (c ! 1 - c ! 0) / 2 \<and>
            (\<forall>i. 1 \<le> i \<and> i < length c \<longrightarrow> hist_edges c ! i = (c ! (i - 1) + c ! i) / 2) \<and>
            hist_edges c ! length c = last c + (last c - c ! (length c - 2)) / 2) \<and>
         (length c = 1 \<longrightarrow> hist_edges c = [c ! 0 - 1 / 2, c ! 0 + 1 / 2]) \<and>
         (c = [] \<longrightarrow> histogram x c = Inr []) \<and>
         (c \<noteq> [] \<longrightarrow> histogram x c =
            Inr (map (\<lambda>i. real (length (filter (\<lambda>v. hist_edges c ! i \<le> v \<and>
                    (if i = length c - 1 then v \<le> hist_edges c ! (i + 1)
                     else v < hist_edges c ! (i + 1))) x)))
                  [0..<length c])) \<and>
         hist_edges [1, 3, 7] = [0, 2, 5, 9]"
proof (intro conjI impI allI)
  show "hist_edges [1, 3, 7] = [0, 2, 5, 9]" by (simp add: hist_edges_def)
  show "hist_edges c = [c ! 0 - 1 / 2, c ! 0 + 1 / 2]" if "length c = 1"
    using that by (simp add: hist_edges_def Let_def)
  show "histogram x c = Inr []" if "c = []"
    using that by (simp add: histogram_def)
  show "hist_edges c ! 0 = c ! 0 - (c ! 1 - c ! 0) / 2" if "2 \<le> length c"
    using that by (rule hist_edges_0)
  show "hist_edges c ! i = (c ! (i - 1) + c ! i) / 2" if "2 \<le> length c" "1 \<le> i \<and> i < length c" for i
    using that by (simp add: hist_edges_mid)
  show "hist_edges c ! length c = last c + (last c - c ! (length c - 2)) / 2" if "2 \<le> length c"
    using that by (rule hist_edges_last)
  show "histogram x c =
            Inr (map (\<lambda>i. real (length (filter (\<lambda>v. hist_edges c ! i \<le> v \<and>
                    (if i = length c - 1 then v \<le> hist_edges c ! (i + 1)
                     else v < hist_edges c ! (i + 1))) x)))
                  [0..<length c])" if "c \<noteq> []"
    using assms that by (rule histogram_counts)
qed

text \<open>
  At centers \<open>[1, 3, 7]\<close>: samples on the edges 0, 2, 5 and 9 fall into bins 0, 1, 2 and
  2, and samples outside \<open>[0, 9]\<close> are counted nowhere.
\<close>

theorem histogram_edges_and_bins_witness:
  "sorted_wrt (<) [1, 3, 7 :: real] \<and>
   hist_edges [1, 3, 7] ! 0 = 0 \<and> hist_edges [1, 3, 7] ! 1 = 2 \<and> hist_edges [1, 3, 7] ! 2 = 5 \<and>
   hist_edges [1, 3, 7] ! 3 = 9 \<and>
   histogram [0, 2, 5, 9, 1 / 2, 10, - 1] [1, 3, 7] = Inr [2, 1, 2]"
proof -
  have s: "sorted_wrt (<) [1, 3, 7 :: real]" by simp
  have e: "hist_edges [1, 3, 7] = [0, 2, 5, 9]" by (simp add: hist_edges_def)
  have u: "[0..<3] = [0, 1, 2]" by (simp add: upt_rec)
  show ?thesis
    using histogram_edges_and_bins[OF s, of "[0, 2, 5, 9, 1 / 2, 10, - 1]"]
    by (simp add: e u)
qed

section \<open>Bit-depth normalisation\<close>

text \<open>
  C4, as stated, fails at bit depth 10: the code value 1023 survives the clamp and is
  normalised to \<open>1023 / 4 / 255\<close>, which is above 1.
\<close>

theorem img_normalized_10bit_above_one:
  "\<not> (0 \<le> img_normalized 10 1023 \<and> img_normalized 10 1023 \<le> 1)"
  by (simp add: img_normalized_def clip_def minValueY_def maxValueY_def scale_def)

lemma scale_pos: "0 < scale bd"
  by (simp add: scale_def)

text \<open>
  C4, amended: the normalised values lie in \<open>[0, 1]\<close> for bit depth 8 and in
  \<open>[0, 341 / 340]\<close> (that is \<open>1023 / 1020\<close>) for bit depth 10, and the largest code value
  of the bit depth reaches the upper bound.
\<close>

theorem img_normalized_range:
  assumes "input_bit_depth = 8 \<or> input_bit_depth = 10"
  shows "0 \<le> img_normalized input_bit_depth v \<and>
         img_normalized input_bit_depth v \<le> (if input_bit_depth = 8 then 1 else 341 / 340) \<and>
         img_normalized input_bit_depth (maxValueY input_bit_depth)
           = (if input_bit_depth = 8 then 1 else 341 / 340)"
  using assms
  by (auto simp add: img_normalized_def clip_def minValueY_def maxValueY_def scale_def min_def max_def)

text \<open>At bit depth 10 and code value 1023.\<close>

theorem img_normalized_range_witness:
  "((10::nat) = 8 \<or> (10::nat) = 10) \<and> 0 \<le> img_normalized 10 1023 \<and>
   img_normalized 10 1023 \<le> 341 / 340 \<and> img_normalized 10 1023 = 341 / 340"
  using img_normalized_range[of 10 1023]
  by (simp add: maxValueY_def scale_def)

section \<open>The keyword of the curve selector\<close>



text \<open>With the declared name the same call reaches the operator.\<close>

lemma tmo_callable_mappingCurve:
  "tmo_callable [PyArray hdr] [(''mappingCurve'', PyStr mapping_curve)]
     = proposed_tmo hdr mapping_curve tmo_defaults"
  by (simp add: tmo_callable_def bind_arguments_def tmo_parameter_names_def float_argument_def
      tmo_defaults_def)

section \<open>The histogram of the ITMO and the region probabilities\<close>

lemma length_linspace: "length (linspace a b n) = n"
  by (simp add: linspace_def)

lemma sorted_linspace:
  assumes "a < b"
  shows "sorted_wrt (<) (linspace a b n)"
proof (cases "n = 1")
  case True
  then show ?thesis by (simp add: linspace_def)
next
  case False
  have "a + real i * ((b - a) / real (n - 1)) < a + real j * ((b - a) / real (n - 1))"
    if "i < j" "j < n" for i j
  proof -
    have "0 < (b - a) / real (n - 1)" using assms that False by simp
    moreover have "real i < real j" using that(1) by simp
    ultimately have "real i * ((b - a) / real (n - 1)) < real j * ((b - a) / real (n - 1))"
      by (rule mult_strict_right_mono[rotated])
    then show ?thesis by (simp only: add_less_cancel_left)
  qed
  then have "sorted_wrt (\<lambda>i j. a + real i * ((b - a) / real (n - 1))
                 < a + real j * ((b - a) / real (n - 1))) [0..<n]"
    by (simp add: sorted_wrt_iff_nth_less)
  then show ?thesis using False by (simp add: linspace_def sorted_wrt_map)
qed

lemma sorted_centers: "sorted_wrt (<) (centers bd)"
  unfolding centers_def by (rule sorted_linspace) (simp add: xmin_def xmax_def)

lemma length_centers: "length (centers bd) = 2 ^ bd"
  by (simp add: centers_def length_linspace num_bins_def)

lemma centers_nonempty: "centers bd \<noteq> []"
  using length_centers[of bd] by (cases "centers bd") simp_all

lemma n_light_counts:
  "n_light input_frame bd =
     Inr (map (\<lambda>i. real (length (filter (in_bin (hist_edges (centers bd)) i)
                                   (map (l_disp_PQ bd) input_frame))))
            [0..<2 ^ bd])"
proof -
  have "sorted (hist_edges (centers bd))"
    using sorted_hist_edges[OF sorted_centers centers_nonempty]
    by (rule strict_sorted_imp_sorted)
  then show ?thesis
    using centers_nonempty[of bd]
    by (simp add: n_light_def histogram_def np_histogram_def length_hist_edges length_centers)
qed

lemma sum_list_take_nth: "k \<le> length xs \<Longrightarrow> sum_list (take k xs) = (\<Sum>i = 0..<k. (xs ! i :: real))"
  by (simp add: sum_list_sum_nth)

lemma sum_list_drop_nth: "sum_list (drop k xs) = (\<Sum>i = k..<length xs. (xs ! i :: real))"
proof (cases "k \<le> length xs")
  case True
  have "sum_list (drop k xs) = (\<Sum>i = 0..<length xs - k. xs ! (k + i))"
    using True by (simp add: sum_list_sum_nth)
  also have "\<dots> = (\<Sum>i = k..<length xs. xs ! i)"
    using True sum.shift_bounds_nat_ivl[of "\<lambda>i. xs ! i" 0 k "length xs - k"]
    by (simp add: add.commute)
  finally show ?thesis .
next
  case False
  then show ?thesis by simp
qed

lemma sum_list_div: "sum_list (map (\<lambda>c. c / t) xs) = sum_list xs / (t :: real)"
  by (induction xs) (simp_all add: add_divide_distrib)

lemma region_probs_sums:
  assumes "threshold_high \<le> length n"
  shows "region_probs n =
     Inr (if sum_list n = 0 then (0, 0, 0)
          else ((\<Sum>i = 0..<35. n ! i) / sum_list n,
                (\<Sum>i = 35..<192. n ! i) / sum_list n,
                (\<Sum>i = 192..<length n. n ! i) / sum_list n))"
proof -
  have l: "192 \<le> length n" using assms by (simp add: threshold_high_def)
  have 1: "sum_list (take 35 n) = (\<Sum>i = 0..<35. n ! i)"
    using l by (simp add: sum_list_take_nth)
  have "sum_list (take 157 (drop 35 n)) = sum_list (drop 35 (take 192 n))"
    by (simp add: drop_take)
  also have "\<dots> = (\<Sum>i = 35..<192. take 192 n ! i)"
    using l by (simp add: sum_list_drop_nth)
  also have "\<dots> = (\<Sum>i = 35..<192. n ! i)"
    by (rule sum.cong) simp_all
  finally have 2: "sum_list (take 157 (drop 35 n)) = (\<Sum>i = 35..<192. n ! i)" .
  show ?thesis
    using l by (simp add: region_probs_def Let_def threshold_low_def threshold_high_def
        sum_list_div 1 2 sum_list_drop_nth sum_list_replicate)
qed

text \<open>
  C7: for bit depth 8 or 10 the histogram and the three probabilities are computed
  without an error; when the total count is zero the three probabilities are zero,
  otherwise they are the sums of the bins \<open>[0, 35)\<close>, \<open>[35, 192)\<close> and \<open>[192, end)\<close>, each
  divided by the total count.
\<close>

theorem region_probabilities:
  assumes "input_bit_depth = 8 \<or> input_bit_depth = 10"
  shows "\<exists>n. n_light input_frame input_bit_depth = Inr n \<and> length n = 2 ^ input_bit_depth \<and>
           region_probs n =
             Inr (if sum_list n = 0 then (0, 0, 0)
                  else ((\<Sum>i = 0..<35. n ! i) / sum_list n,
                        (\<Sum>i = 35..<192. n ! i) / sum_list n,
                        (\<Sum>i = 192..<length n. n ! i) / sum_list n))"
proof -
  let ?n = "map (\<lambda>i. real (length (filter (in_bin (hist_edges (centers input_bit_depth)) i)
                                   (map (l_disp_PQ input_bit_depth) input_frame))))
            [0..<2 ^ input_bit_depth]"
  have "threshold_high \<le> length ?n"
    using assms by (auto simp: threshold_high_def)
  then have "region_probs ?n =
             Inr (if sum_list ?n = 0 then (0, 0, 0)
                  else ((\<Sum>i = 0..<35. ?n ! i) / sum_list ?n,
                        (\<Sum>i = 35..<192. ?n ! i) / sum_list ?n,
                        (\<Sum>i = 192..<length ?n. ?n ! i) / sum_list ?n))"
    by (rule region_probs_sums)
  moreover have "length ?n = 2 ^ input_bit_depth" by simp
  ultimately show ?thesis
    using n_light_counts[of input_frame input_bit_depth] by blast
qed

text \<open>At bit depth 8 and a frame without pixels, where the total count is zero.\<close>

theorem region_probabilities_witness:
  "((8::nat) = 8 \<or> (8::nat) = 10) \<and>
   (\<exists>n. n_light [] 8 = Inr n \<and> length n = 256 \<and> region_probs n = Inr (0, 0, 0))"
proof -
  obtain n where n: "n_light [] 8 = Inr n" "length n = 2 ^ 8"
     "region_probs n =
             Inr (if sum_list n = 0 then (0, 0, 0)
                  else ((\<Sum>i = 0..<35. n ! i) / sum_list n,
                        (\<Sum>i = 35..<192. n ! i) / sum_list n,
                        (\<Sum>i = 192..<length n. n ! i) / sum_list n))"
    using region_probabilities[of 8 "[]"] by auto
  have "sum_list n = 0"
    using n(1) by (auto simp: n_light_counts)
  then show ?thesis using n by auto
qed

section \<open>The luma ratio of the TMO\<close>

text \<open>
  C8: for every pixel whose compressed luma is a number, the luma ratio is the
  compressed luma divided by the original luma when the original luma is not zero and
  is zero when it is zero, and each of the three clamped input channels is multiplied
  by \<open>alpha\<close> times this ratio.
\<close>

theorem tmo_luma_ratio_scaling:
  assumes "y_SDR_PQ mappingCurve (y_HDR_PQ p px) = Inr y_out"
  shows "(y_HDR_PQ p px \<noteq> 0 \<longrightarrow> ratio y_out (y_HDR_PQ p px) = y_out / y_HDR_PQ p px) \<and>
         (y_HDR_PQ p px = 0 \<longrightarrow> ratio y_out (y_HDR_PQ p px) = 0) \<and>
         tmo_scaled p mappingCurve px =
           (case imgIn_HDR_PQ p px of (r, g, b) \<Rightarrow>
              Inr (alpha p * ratio y_out (y_HDR_PQ p px) * r,
                   alpha p * ratio y_out (y_HDR_PQ p px) * g,
                   alpha p * ratio y_out (y_HDR_PQ p px) * b))"
  using assms by (simp add: ratio_def tmo_scaled_def Let_def split: prod.splits)

lemma y_HDR_default: "y_HDR_PQ tmo_defaults (1/2, 1/2, 1/2) = 9999 / 20000"
  by (simp add: y_HDR_PQ_def imgIn_HDR_PQ_def clip_def tmo_defaults_def)

lemma tmo_piecewise_example: "tmo_piecewise (9999 / 20000) = 82526213 / 200000000"
  by (simp add: tmo_piecewise_def Let_def)

text \<open>
  At the default parameters and a mid-grey pixel (luma not zero), and at a lower clamp
  bound of 0 and a black pixel (luma zero).
\<close>

theorem tmo_luma_ratio_scaling_witness:
  "y_SDR_PQ ''PiecewiseLinear'' (y_HDR_PQ tmo_defaults (1/2, 1/2, 1/2)) = Inr (82526213 / 200000000) \<and>
   y_HDR_PQ tmo_defaults (1/2, 1/2, 1/2) = 9999 / 20000 \<and>
   ratio (82526213 / 200000000) (y_HDR_PQ tmo_defaults (1/2, 1/2, 1/2)) = 7502383 / 9090000 \<and>
   tmo_scaled tmo_defaults ''PiecewiseLinear'' (1/2, 1/2, 1/2)
     = Inr (7502383 / 18180000, 7502383 / 18180000, 7502383 / 18180000) \<and>
   y_SDR_PQ ''PiecewiseLinear'' (y_HDR_PQ (tmo_defaults\<lparr>hDRmin_PQ := 0\<rparr>) (0, 0, 0)) = Inr (503 / 10000) \<and>
   y_HDR_PQ (tmo_defaults\<lparr>hDRmin_PQ := 0\<rparr>) (0, 0, 0) = 0 \<and>
   ratio (503 / 10000) (y_HDR_PQ (tmo_defaults\<lparr>hDRmin_PQ := 0\<rparr>) (0, 0, 0)) = 0 \<and>
   tmo_scaled (tmo_defaults\<lparr>hDRmin_PQ := 0\<rparr>) ''PiecewiseLinear'' (0, 0, 0) = Inr (0, 0, 0)"
proof -
  have a: "y_SDR_PQ ''PiecewiseLinear'' (y_HDR_PQ tmo_defaults (1/2, 1/2, 1/2)) = Inr (82526213 / 200000000)"
    by (simp add: y_SDR_PQ_def y_HDR_default tmo_piecewise_example)
  have z: "y_HDR_PQ (tmo_defaults\<lparr>hDRmin_PQ := 0\<rparr>) (0, 0, 0) = 0"
    by (simp add: y_HDR_PQ_def imgIn_HDR_PQ_def clip_def tmo_defaults_def)
  have b: "y_SDR_PQ ''PiecewiseLinear'' (y_HDR_PQ (tmo_defaults\<lparr>hDRmin_PQ := 0\<rparr>) (0, 0, 0)) = Inr (503 / 10000)"
    by (simp add: y_SDR_PQ_def z tmo_piecewise_def Let_def)
  have ia: "imgIn_HDR_PQ tmo_defaults (1/2, 1/2, 1/2) = (1/2, 1/2, 1/2)"
    by (simp add: imgIn_HDR_PQ_def clip_def tmo_defaults_def)
  have ib: "imgIn_HDR_PQ (tmo_defaults\<lparr>hDRmin_PQ := 0\<rparr>) (0, 0, 0) = (0, 0, 0)"
    by (simp add: imgIn_HDR_PQ_def clip_def tmo_defaults_def)
  have al: "alpha tmo_defaults = 1" "alpha (tmo_defaults\<lparr>hDRmin_PQ := 0\<rparr>) = 1"
    by (simp_all add: tmo_defaults_def)
  show ?thesis
    using tmo_luma_ratio_scaling[OF a] tmo_luma_ratio_scaling[OF b]
    by (simp add: a[unfolded y_HDR_default] b[unfolded z] z y_HDR_default ia ib al)
qed


section \<open>The forward PQ function\<close>

lemma to_pq_eq: "0 \<le> L \<Longrightarrow> to_pq L = pq_ratio ((L / 10000) powr n_PQ) powr m_PQ"
  by (simp add: to_pq_def pq_ratio_def Let_def l_max_PQ_def max_def)

lemma pq_ratio_pos: "0 \<le> t \<Longrightarrow> 0 < pq_ratio t"
  by (simp add: pq_ratio_def c1_PQ_def c2_PQ_def c3_PQ_def add_pos_nonneg add_nonneg_pos)

lemma pq_ratio_mono:
  assumes "0 \<le> s" "s \<le> t"
  shows "pq_ratio s \<le> pq_ratio t"
proof -
  have ds: "0 < 18.6875 * s + (1::real)" and dt: "0 < 18.6875 * t + (1::real)"
    using assms by (auto intro: add_nonneg_pos)
  have "(18.8516 * t + 0.8359) * (18.6875 * s + 1) - (18.8516 * s + 0.8359) * (18.6875 * t + 1)
          = (18.8516 - 0.8359 * 18.6875) * (t - s)"
    by (simp add: field_simps)
  moreover have "0 \<le> (18.8516 - 0.8359 * 18.6875) * (t - s)"
    using assms by (intro mult_nonneg_nonneg) simp_all
  ultimately have "(18.8516 * s + 0.8359) * (18.6875 * t + 1) \<le> (18.8516 * t + 0.8359) * (18.6875 * s + 1)"
    by linarith
  then have "(18.8516 * s + 0.8359) / (18.6875 * s + 1) \<le> (18.8516 * t + 0.8359) / (18.6875 * t + 1)"
    using ds dt by (simp add: frac_le_eq divide_le_0_iff mult.commute)
  then show ?thesis by (simp add: pq_ratio_def c1_PQ_def c2_PQ_def c3_PQ_def)
qed

lemma pq_ratio_strict_mono:
  assumes "0 \<le> s" "s < t"
  shows "pq_ratio s < pq_ratio t"
proof -
  have ds: "0 < 18.6875 * s + (1::real)" and dt: "0 < 18.6875 * t + (1::real)"
    using assms by (auto intro: add_nonneg_pos)
  have "(18.8516 * t + 0.8359) * (18.6875 * s + 1) - (18.8516 * s + 0.8359) * (18.6875 * t + 1)
          = (18.8516 - 0.8359 * 18.6875) * (t - s)"
    by (simp add: field_simps)
  moreover have "0 < (18.8516 - 0.8359 * 18.6875) * (t - s)"
    using assms by (intro mult_pos_pos) simp_all
  ultimately have "(18.8516 * s + 0.8359) * (18.6875 * t + 1) < (18.8516 * t + 0.8359) * (18.6875 * s + 1)"
    by linarith
  then have "(18.8516 * s + 0.8359) / (18.6875 * s + 1) < (18.8516 * t + 0.8359) / (18.6875 * t + 1)"
    using ds dt by (simp add: frac_less_eq divide_less_0_iff mult.commute)
  then show ?thesis by (simp add: pq_ratio_def c1_PQ_def c2_PQ_def c3_PQ_def)
qed

lemma pq_ratio_one: "pq_ratio 1 = 1"
  by (simp add: pq_ratio_def c1_PQ_def c2_PQ_def c3_PQ_def)

lemma to_pq_pos: "0 < to_pq L"
proof -
  have "0 < pq_ratio ((max (L / l_max_PQ) 0) powr n_PQ)"
    by (rule pq_ratio_pos) simp
  moreover have "to_pq L = pq_ratio ((max (L / l_max_PQ) 0) powr n_PQ) powr m_PQ"
    by (simp add: to_pq_def Let_def pq_ratio_def)
  ultimately show ?thesis by simp
qed

lemma to_pq_mono:
  assumes "0 \<le> a" "a \<le> b"
  shows "to_pq a \<le> to_pq b"
proof -
  have "(a / 10000) powr n_PQ \<le> (b / 10000) powr n_PQ"
    using assms by (intro powr_mono2) (simp_all add: n_PQ_def)
  then have "pq_ratio ((a / 10000) powr n_PQ) \<le> pq_ratio ((b / 10000) powr n_PQ)"
    by (intro pq_ratio_mono) simp_all
  then have "pq_ratio ((a / 10000) powr n_PQ) powr m_PQ \<le> pq_ratio ((b / 10000) powr n_PQ) powr m_PQ"
    by (intro powr_mono2) (simp_all add: m_PQ_def less_imp_le[OF pq_ratio_pos])
  then show ?thesis using assms by (simp add: to_pq_eq)
qed

text \<open>Bounds on a power with a rational exponent from a comparison of integer powers.\<close>

lemma powr_rat_ge:
  assumes "0 < u" "0 < x" "0 < q" "u ^ q \<le> x ^ p"
  shows "u \<le> x powr (real p / real q)"
proof -
  have "u = (u ^ q) powr (1 / real q)"
    using assms(1,3) by (simp add: powr_powr flip: powr_realpow)
  also have "\<dots> \<le> (x ^ p) powr (1 / real q)"
    using assms by (intro powr_mono2) simp_all
  also have "\<dots> = x powr (real p / real q)"
    using assms(2) by (simp add: powr_powr flip: powr_realpow)
  finally show ?thesis .
qed

lemma powr_rat_le:
  assumes "0 < u" "0 < x" "0 < q" "x ^ p \<le> u ^ q"
  shows "x powr (real p / real q) \<le> u"
proof -
  have "x powr (real p / real q) = (x ^ p) powr (1 / real q)"
    using assms(2) by (simp add: powr_powr flip: powr_realpow)
  also have "\<dots> \<le> (u ^ q) powr (1 / real q)"
    using assms by (intro powr_mono2) simp_all
  also have "\<dots> = u"
    using assms(1,3) by (simp add: powr_powr flip: powr_realpow)
  finally show ?thesis .
qed

section \<open>The PQ luma of an 8-bit frame lies between the outer edges\<close>

lemma to_pq_lower: "13053 / 212500 \<le> to_pq (1 / 10)"
proof -
  let ?t = "(1 / 100000 :: real) powr n_PQ"
  have "(0.1595 :: real) \<le> (1 / 100000) powr (real 11 / real 69)"
    by (rule powr_rat_ge) (simp_all add: power_divide)
  also have "\<dots> \<le> ?t"
    by (rule powr_mono') (simp_all add: n_PQ_def)
  finally have t: "0.1595 \<le> ?t" .
  have "(19307 / 20000 :: real) \<le> pq_ratio 0.1595"
    by (simp add: pq_ratio_def c1_PQ_def c2_PQ_def c3_PQ_def)
  also have "\<dots> \<le> pq_ratio ?t"
    using t by (intro pq_ratio_mono) simp_all
  finally have q: "19307 / 20000 \<le> pq_ratio ?t" .
  have "(13053 / 212500 :: real) \<le> (19307 / 20000) ^ 79"
    by (simp add: power_divide)
  also have "\<dots> = (19307 / 20000 :: real) powr 79"
    by simp
  also have "\<dots> \<le> (19307 / 20000 :: real) powr m_PQ"
    by (rule powr_mono') (simp_all add: m_PQ_def)
  also have "\<dots> \<le> pq_ratio ?t powr m_PQ"
    using q by (intro powr_mono2) (simp_all add: m_PQ_def)
  finally show ?thesis by (simp add: to_pq_eq)
qed

lemma to_pq_upper: "to_pq 100 \<le> 108157 / 212500"
proof -
  let ?t = "(1 / 100 :: real) powr n_PQ"
  let ?Q = "49573 / 50000 :: real"
  have "?t \<le> (1 / 100) powr (real 18 / real 113)"
    by (rule powr_mono') (simp_all add: n_PQ_def)
  also have "\<dots> \<le> 0.4803"
    by (rule powr_rat_le) (simp_all add: power_divide)
  finally have t: "?t \<le> 0.4803" .
  have "pq_ratio ?t \<le> pq_ratio 0.4803"
    using t by (intro pq_ratio_mono) simp_all
  also have "\<dots> \<le> ?Q"
    by (simp add: pq_ratio_def c1_PQ_def c2_PQ_def c3_PQ_def)
  finally have q: "pq_ratio ?t \<le> ?Q" .
  have "?Q powr 0.8438 \<le> ?Q powr (real 5 / real 6)"
    by (rule powr_mono') simp_all
  also have "\<dots> \<le> 0.9929"
    by (rule powr_rat_le) (simp_all add: power_divide)
  finally have f: "?Q powr 0.8438 \<le> 0.9929" .
  have "pq_ratio ?t powr m_PQ \<le> ?Q powr m_PQ"
    using q by (intro powr_mono2) (simp_all add: m_PQ_def less_imp_le[OF pq_ratio_pos])
  also have "\<dots> = ?Q powr (78 + 0.8438)"
    by (simp add: m_PQ_def)
  also have "\<dots> = ?Q powr 78 * ?Q powr 0.8438"
    by (rule powr_add)
  also have "\<dots> = ?Q ^ 78 * ?Q powr 0.8438"
    by simp
  also have "\<dots> \<le> ?Q ^ 78 * 0.9929"
    using f by (intro mult_left_mono) simp_all
  also have "\<dots> \<le> 108157 / 212500"
    by (simp add: power_divide)
  finally show ?thesis by (simp add: to_pq_eq)
qed

lemma nth_linspace:
  "i < n \<Longrightarrow> n \<noteq> 1 \<Longrightarrow> linspace a b n ! i = a + real i * ((b - a) / real (n - 1))"
  by (simp add: linspace_def)

lemma first_edge_8: "hist_edges (centers 8) ! 0 = 13053 / 212500"
proof -
  have "2 \<le> length (centers 8)" by (simp add: length_centers)
  then have "hist_edges (centers 8) ! 0 = centers 8 ! 0 - (centers 8 ! 1 - centers 8 ! 0) / 2"
    by (rule hist_edges_0)
  then show ?thesis
    by (simp add: centers_def num_bins_def nth_linspace xmin_def xmax_def)
qed

lemma last_edge_8: "hist_edges (centers 8) ! 256 = 108157 / 212500"
proof -
  have l: "length (centers 8) = 256" by (simp add: length_centers)
  then have "2 \<le> length (centers 8)" by simp
  then have "hist_edges (centers 8) ! length (centers 8)
     = last (centers 8) + (last (centers 8) - centers 8 ! (length (centers 8) - 2)) / 2"
    by (rule hist_edges_last)
  moreover have "last (centers 8) = centers 8 ! 255"
    using l centers_nonempty[of 8] by (simp add: last_conv_nth)
  ultimately show ?thesis
    by (simp add: l) (simp add: centers_def num_bins_def nth_linspace xmin_def xmax_def)
qed

lemma length_filter_disjoint:
  assumes "\<And>v. \<not> (P v \<and> Q v)"
  shows "length (filter P xs) + length (filter Q xs) = length (filter (\<lambda>v. P v \<or> Q v) xs)"
  using assms by (induction xs) auto

lemma bins_prefix:
  assumes "sorted es" "Suc k < length es"
  shows "sum_list (map (\<lambda>i. real (length (filter (in_bin es i) xs))) [0..<k])
           = real (length (filter (\<lambda>v. es ! 0 \<le> v \<and> v < es ! k) xs))"
  using assms(2)
proof (induction k)
  case 0
  then show ?case by simp
next
  case (Suc k)
  have le: "es ! 0 \<le> es ! k" "es ! k \<le> es ! Suc k"
    using assms(1) Suc.prems by (auto intro: sorted_nth_mono)
  have ib: "in_bin es k = (\<lambda>v. es ! k \<le> v \<and> v < es ! Suc k)"
    using Suc.prems by (auto simp: in_bin_def fun_eq_iff)
  have "length (filter (\<lambda>v. es ! 0 \<le> v \<and> v < es ! k) xs)
          + length (filter (\<lambda>v. es ! k \<le> v \<and> v < es ! Suc k) xs)
        = length (filter (\<lambda>v. (es ! 0 \<le> v \<and> v < es ! k) \<or> (es ! k \<le> v \<and> v < es ! Suc k)) xs)"
    by (rule length_filter_disjoint) auto
  also have "(\<lambda>v. (es ! 0 \<le> v \<and> v < es ! k) \<or> (es ! k \<le> v \<and> v < es ! Suc k))
               = (\<lambda>v. es ! 0 \<le> v \<and> v < es ! Suc k)"
    using le by (auto simp: fun_eq_iff)
  finally show ?case
    using Suc by (simp add: ib)
qed

lemma bins_total:
  assumes "sorted es" "2 \<le> length es"
  shows "sum_list (map (\<lambda>i. real (length (filter (in_bin es i) xs))) [0..<length es - 1])
           = real (length (filter (\<lambda>v. es ! 0 \<le> v \<and> v \<le> es ! (length es - 1)) xs))"
proof -
  obtain k where k: "length es = Suc (Suc k)"
    using assms(2) by (metis Suc_le_D numeral_2_eq_2 Suc_le_mono)
  have le: "es ! 0 \<le> es ! k" "es ! k \<le> es ! Suc k"
    using assms(1) k by (auto intro: sorted_nth_mono)
  have ib: "in_bin es k = (\<lambda>v. es ! k \<le> v \<and> v \<le> es ! Suc k)"
    using k by (auto simp: in_bin_def fun_eq_iff)
  have "length (filter (\<lambda>v. es ! 0 \<le> v \<and> v < es ! k) xs)
          + length (filter (\<lambda>v. es ! k \<le> v \<and> v \<le> es ! Suc k) xs)
        = length (filter (\<lambda>v. (es ! 0 \<le> v \<and> v < es ! k) \<or> (es ! k \<le> v \<and> v \<le> es ! Suc k)) xs)"
    by (rule length_filter_disjoint) auto
  also have "(\<lambda>v. (es ! 0 \<le> v \<and> v < es ! k) \<or> (es ! k \<le> v \<and> v \<le> es ! Suc k))
               = (\<lambda>v. es ! 0 \<le> v \<and> v \<le> es ! Suc k)"
    using le by (auto simp: fun_eq_iff)
  finally show ?thesis
    using bins_prefix[OF assms(1), of k xs] k by (simp add: ib)
qed

lemma img_light_8_range: "0 \<le> img_light 8 v \<and> img_light 8 v \<le> 1"
proof -
  have "0 \<le> img_normalized 8 v \<and> img_normalized 8 v \<le> 1"
    by (auto simp add: img_normalized_def clip_def minValueY_def maxValueY_def scale_def min_def max_def)
  then show ?thesis
    by (simp add: img_light_def powr_le1)
qed

lemma L_disp_8_range: "1 / 10 \<le> L_disp 8 px \<and> L_disp 8 px \<le> 100"
proof -
  obtain r g b where px: "px = (r, g, b)" by (cases px)
  have "0 \<le> y_SDR 8 px \<and> y_SDR 8 px \<le> 1"
    using img_light_8_range[of r] img_light_8_range[of g] img_light_8_range[of b]
    by (simp add: y_SDR_def px)
  then show ?thesis
    by (simp add: L_disp_def disp_Min_def disp_Max_def) 
qed

lemma l_disp_PQ_8_in_edges:
  "hist_edges (centers 8) ! 0 \<le> l_disp_PQ 8 px \<and> l_disp_PQ 8 px \<le> hist_edges (centers 8) ! 256"
proof -
  have "to_pq (1 / 10) \<le> to_pq (L_disp 8 px)" "to_pq (L_disp 8 px) \<le> to_pq 100"
    using L_disp_8_range[of px] by (auto intro!: to_pq_mono)
  then show ?thesis
    using to_pq_lower to_pq_upper by (simp add: first_edge_8 last_edge_8 l_disp_PQ_def)
qed

lemma sorted_edges: "sorted (hist_edges (centers bd))"
  using sorted_hist_edges[OF sorted_centers centers_nonempty]
  by (rule strict_sorted_imp_sorted)

lemma n_light_8_total:
  assumes "n_light input_frame 8 = Inr n"
  shows "sum_list n = real (length input_frame)"
proof -
  let ?es = "hist_edges (centers 8)"
  let ?xs = "map (l_disp_PQ 8) input_frame"
  have l: "length ?es = 257"
    using centers_nonempty[of 8] by (simp add: length_hist_edges length_centers)
  have n: "n = map (\<lambda>i. real (length (filter (in_bin ?es i) ?xs))) [0..<length ?es - 1]"
    using assms by (simp add: n_light_counts l)
  have "sum_list n = real (length (filter (\<lambda>v. ?es ! 0 \<le> v \<and> v \<le> ?es ! (length ?es - 1)) ?xs))"
    unfolding n by (rule bins_total) (simp_all add: sorted_edges l)
  also have "filter (\<lambda>v. ?es ! 0 \<le> v \<and> v \<le> ?es ! (length ?es - 1)) ?xs = ?xs"
    using l_disp_PQ_8_in_edges by (simp add: l)
  finally show ?thesis by simp
qed

text \<open>
  C10: for every non-empty frame at bit depth 8, every PQ luma sample lies between the
  first and the last edge of the histogram, the total count is the number of pixels
  and is not zero, so the fallback is not taken, the three probabilities are the
  region sums divided by the total, and they add up to 1.
\<close>

theorem histogram_total_is_pixel_count:
  assumes "input_frame \<noteq> []"
  shows "\<exists>n p1 p2 p3. n_light input_frame 8 = Inr n \<and>
           list_all (\<lambda>v. hist_edges (centers 8) ! 0 \<le> v \<and> v \<le> hist_edges (centers 8) ! 256)
             (map (l_disp_PQ 8) input_frame) \<and>
           sum_list n = real (length input_frame) \<and> sum_list n \<noteq> 0 \<and>
           region_probs n = Inr (p1, p2, p3) \<and>
           p1 = (\<Sum>i = 0..<35. n ! i) / sum_list n \<and>
           p2 = (\<Sum>i = 35..<192. n ! i) / sum_list n \<and>
           p3 = (\<Sum>i = 192..<256. n ! i) / sum_list n \<and>
           p1 + p2 + p3 = 1"
proof -
  obtain n where n: "n_light input_frame 8 = Inr n" "length n = 256"
    by (simp add: n_light_counts)
  have tot: "sum_list n = real (length input_frame)"
    using n(1) by (rule n_light_8_total)
  then have nz: "sum_list n \<noteq> 0" using assms by simp
  have rp: "region_probs n = Inr ((\<Sum>i = 0..<35. n ! i) / sum_list n,
                (\<Sum>i = 35..<192. n ! i) / sum_list n,
                (\<Sum>i = 192..<256. n ! i) / sum_list n)"
    using region_probs_sums[of n] nz n(2) by (simp add: threshold_high_def)
  have "(\<Sum>i = 0..<35. n ! i) + (\<Sum>i = 35..<192. n ! i) + (\<Sum>i = 192..<256. n ! i)
          = (\<Sum>i = 0..<256. n ! i)"
    by (simp add: sum.atLeastLessThan_concat)
  also have "\<dots> = sum_list n"
    using n(2) by (simp add: sum_list_sum_nth)
  finally have "(\<Sum>i = 0..<35. n ! i) / sum_list n + (\<Sum>i = 35..<192. n ! i) / sum_list n
      + (\<Sum>i = 192..<256. n ! i) / sum_list n = 1"
    using nz by (simp flip: add_divide_distrib)
  then show ?thesis
    using n tot nz rp l_disp_PQ_8_in_edges by (simp add: list_all_iff)
qed

text \<open>At a frame of one pixel.\<close>

theorem histogram_total_is_pixel_count_witness:
  "[(12, 200, 255)] \<noteq> ([] :: frame) \<and>
   (\<exists>n p1 p2 p3. n_light [(12, 200, 255)] 8 = Inr n \<and> sum_list n = 1 \<and>
      region_probs n = Inr (p1, p2, p3) \<and> p1 + p2 + p3 = 1)"
proof -
  have ne: "[(12, 200, 255)] \<noteq> ([] :: frame)" by simp
  show ?thesis
    using histogram_total_is_pixel_count[OF ne] by auto
qed

section \<open>The PQ round trip\<close>

lemma pq_ratio_minus_c1:
  assumes "0 \<le> t"
  shows "pq_ratio t - tmo_c1_PQ = t * (18.8516 - 0.8359 * 18.6875) / (18.6875 * t + 1)"
proof -
  have "0 < 18.6875 * t + (1::real)" using assms by (auto intro: add_nonneg_pos)
  then show ?thesis
    by (simp add: pq_ratio_def c1_PQ_def c2_PQ_def c3_PQ_def tmo_c1_PQ_def field_simps)
qed

lemma pq_ratio_den:
  assumes "0 \<le> t"
  shows "tmo_c2_PQ - tmo_c3_PQ * pq_ratio t = (18.8516 - 0.8359 * 18.6875) / (18.6875 * t + 1)"
proof -
  have "0 < 18.6875 * t + (1::real)" using assms by (auto intro: add_nonneg_pos)
  then show ?thesis
    by (simp add: pq_ratio_def c1_PQ_def c2_PQ_def c3_PQ_def tmo_c2_PQ_def tmo_c3_PQ_def field_simps)
qed

lemma from_pq_pq_ratio:
  assumes "0 \<le> t"
  shows "from_pq (pq_ratio t powr m_PQ) = Inr (10000 * t powr (1 / n_PQ))"
proof -
  have d: "0 < 18.6875 * t + (1::real)" using assms by (auto intro: add_nonneg_pos)
  have qp: "0 < pq_ratio t" using assms by (rule pq_ratio_pos)
  have root: "(max (pq_ratio t powr m_PQ) 0) powr (1 / M_PQ) = pq_ratio t"
    using qp by (simp add: max_def powr_powr m_PQ_def M_PQ_def)
  have k: "(0::real) < 18.8516 - 0.8359 * 18.6875" by simp
  have "0 \<le> t * (18.8516 - 0.8359 * 18.6875) / (18.6875 * t + 1)"
    using assms d k by (intro divide_nonneg_pos mult_nonneg_nonneg) simp_all
  then have num: "max (pq_ratio t - tmo_c1_PQ) 0 = t * (18.8516 - 0.8359 * 18.6875) / (18.6875 * t + 1)"
    unfolding pq_ratio_minus_c1[OF assms] by (rule max_absorb1)
  have den: "tmo_c2_PQ - tmo_c3_PQ * pq_ratio t = (18.8516 - 0.8359 * 18.6875) / (18.6875 * t + 1)"
    by (rule pq_ratio_den[OF assms])
  have den0: "tmo_c2_PQ - tmo_c3_PQ * pq_ratio t \<noteq> 0"
    unfolding den using d k by simp
  have quot: "max (pq_ratio t - tmo_c1_PQ) 0 / (tmo_c2_PQ - tmo_c3_PQ * pq_ratio t) = t"
    unfolding num den using d k by simp
  have fp: "from_pq P =
      (if tmo_c2_PQ - tmo_c3_PQ * (max P 0 powr (1 / M_PQ)) = 0 then Inl NonFinite
       else Inr (L_MAX_PQ * max (max (max P 0 powr (1 / M_PQ) - tmo_c1_PQ) 0
                 / (tmo_c2_PQ - tmo_c3_PQ * (max P 0 powr (1 / M_PQ)))) 0 powr (1 / N_PQ)))" for P
    by (simp add: from_pq_def Let_def)
  have mt: "max t 0 = t" using assms by simp
  show ?thesis
    by (simp only: fp root quot den0 if_False mt) (simp add: L_MAX_PQ_def N_PQ_def n_PQ_def)
qed

lemma from_pq_to_pq:
  assumes "0 \<le> x"
  shows "from_pq (to_pq x) = Inr x"
proof -
  have "from_pq (to_pq x) = Inr (10000 * ((x / 10000) powr n_PQ) powr (1 / n_PQ))"
    using assms by (simp add: to_pq_eq from_pq_pq_ratio)
  also have "((x / 10000) powr n_PQ) powr (1 / n_PQ) = x / 10000"
    using assms by (simp add: powr_powr n_PQ_def)
  finally show ?thesis by simp
qed

lemma to_pq_le_one:
  assumes "0 \<le> x" "x \<le> 10000"
  shows "to_pq x \<le> 1"
proof -
  have "to_pq x \<le> to_pq 10000" using assms by (rule to_pq_mono)
  also have "to_pq 10000 = 1" by (simp add: to_pq_eq pq_ratio_one)
  finally show ?thesis .
qed

lemma to_pq_gt_one:
  assumes "10000 < x"
  shows "1 < to_pq x"
proof -
  have "1 powr n_PQ < (x / 10000) powr n_PQ"
    using assms by (intro powr_less_mono2) (simp_all add: n_PQ_def)
  then have "1 < (x / 10000) powr n_PQ" by simp
  then have "pq_ratio 1 < pq_ratio ((x / 10000) powr n_PQ)"
    by (intro pq_ratio_strict_mono) simp_all
  then have "1 < pq_ratio ((x / 10000) powr n_PQ)" by (simp add: pq_ratio_one)
  then have "1 powr m_PQ < pq_ratio ((x / 10000) powr n_PQ) powr m_PQ"
    by (intro powr_less_mono2) (simp_all add: m_PQ_def)
  then show ?thesis using assms by (simp add: to_pq_eq)
qed

text \<open>
  C1: over the real numbers, for every linear-light value \<open>x \<ge> 0\<close> (so for every \<open>x\<close> in
  \<open>[0, 10000]\<close>) the inverse PQ of the TMO applied to the forward PQ of the ITMO is
  \<open>x\<close>. Neither function clamps its result: up to 10000 nits the code value is in
  \<open>(0, 1]\<close>, and above 10000 nits it is above 1 and still decoded to \<open>x\<close>.
\<close>

theorem pq_round_trip:
  assumes "0 \<le> x"
  shows "from_pq (to_pq x) = Inr x \<and> 0 < to_pq x \<and>
         (x \<le> 10000 \<longrightarrow> to_pq x \<le> 1) \<and> (10000 < x \<longrightarrow> 1 < to_pq x)"
  using assms by (simp add: from_pq_to_pq to_pq_pos to_pq_le_one to_pq_gt_one)

text \<open>At 100 nits, inside the display range, and at 20000 nits, beyond it.\<close>

theorem pq_round_trip_witness:
  "(0::real) \<le> 100 \<and> from_pq (to_pq 100) = Inr 100 \<and> to_pq 100 \<le> 1 \<and>
   (0::real) \<le> 20000 \<and> from_pq (to_pq 20000) = Inr 20000 \<and> 1 < to_pq 20000"
  using pq_round_trip[of 100] pq_round_trip[of 20000] by simp

section \<open>An all-black input\<close>

lemma clip_range: "lo \<le> hi \<Longrightarrow> lo \<le> clip x lo hi \<and> clip x lo hi \<le> hi"
  by (auto simp: clip_def min_def max_def)

lemma collect_map_Inr:
  "(\<And>x. x \<in> set xs \<Longrightarrow> f x = Inr (g x)) \<Longrightarrow> collect (map f xs) = Inr (map g xs)"
  by (induction xs) simp_all

lemma collect_Inr:
  "collect rs = Inr vs \<Longrightarrow> rs = map Inr vs"
  by (induction rs arbitrary: vs) (auto split: sum.splits)

lemma l_disp_PQ_pos: "0 < l_disp_PQ bd px"
  by (simp add: l_disp_PQ_def to_pq_pos)

lemma HDR_PQ_Inr:
  "\<exists>v. HDR_PQ cv bd px = Inr v \<and> in_range hDR_Min_PQ hDR_Max_PQ v"
proof -
  have "l_disp_PQ bd px \<noteq> 0" using l_disp_PQ_pos[of bd px] by simp
  moreover have "hDR_Min_PQ \<le> hDR_Max_PQ" by (simp add: hDR_Min_PQ_def hDR_Max_PQ_def)
  ultimately show ?thesis
    by (auto simp: HDR_PQ_def Let_def in_range_def clip_range split: prod.splits)
qed

lemma L_disp_black: "L_disp 8 (0, 0, 0) = 1 / 10"
  by (simp add: L_disp_def y_SDR_def img_light_def img_normalized_def clip_def minValueY_def
      maxValueY_def scale_def disp_Min_def disp_Max_def)

text \<open>
  C9: for an all-zero 8-bit input of any size \<open>k\<close>, the display luma of every pixel is
  0.1 nits, its PQ encoding is positive, and the division by the PQ luma divides by
  zero for no pixel, whatever curve the solve returned (so also for the curve of
  \<open>wB = wC = 0.5\<close>).
\<close>

theorem all_black_luma:
  "map (L_disp 8) (replicate k (0, 0, 0)) = replicate k (1 / 10) \<and>
   map (l_disp_PQ 8) (replicate k (0, 0, 0)) = replicate k (to_pq (1 / 10)) \<and>
   0 < to_pq (1 / 10) \<and>
   (\<exists>hdr. collect (map (HDR_PQ cv 8) (replicate k (0, 0, 0))) = Inr hdr \<and> length hdr = k)"
proof -
  obtain g where g: "\<And>px. HDR_PQ cv 8 px = Inr (g px)"
    using HDR_PQ_Inr[of cv 8] by metis
  have "collect (map (HDR_PQ cv 8) (replicate k (0, 0, 0))) = Inr (map g (replicate k (0, 0, 0)))"
    by (rule collect_map_Inr) (rule g)
  then show ?thesis
    by (simp add: L_disp_black l_disp_PQ_def to_pq_pos)
qed

section \<open>Monotonicity of the piecewise-linear curves\<close>


lemma itmo_curve_example: "itmo_curve 0 0 1 (1 / 400) (1 / 2) = Inr example_curve"
  by (simp add: itmo_curve_def Let_def xmin_def xmax_def ymin_def ymax_def example_curve_def
      cong: let_weak_cong)

lemma example_curve_drop:
  "0 < cs1 example_curve \<and> 0 < cs2 example_curve \<and> 0 < cs3 example_curve \<and>
   lhdr_PQ example_curve 0.27 < lhdr_PQ example_curve 0.26"
  by (simp add: example_curve_def lhdr_PQ_def Let_def clip_def ymin_def ymax_def)

text \<open>
  The curve of the ITMO compares the luma with the slope offsets that the solve stored
  in \<open>x1\<close> and \<open>x2\<close>. For the probabilities \<open>(0, 0, 1)\<close> and the weights \<open>1 / 400\<close>,
  \<open>1 / 2\<close> all three slopes are positive and the expanded luma falls between the inputs
  0.26 and 0.27.
\<close>

lemma itmo_curve_drop_example:
  "\<exists>cv. itmo_curve 0 0 1 (1 / 400) (1 / 2) = Inr cv \<and> 0 < cs1 cv \<and> 0 < cs2 cv \<and> 0 < cs3 cv \<and>
      (0.26 :: real) \<le> 0.27 \<and> lhdr_PQ cv 0.27 < lhdr_PQ cv 0.26"
  using itmo_curve_example example_curve_drop by simp

text \<open>The expanded luma is the clamped value of the selected segment.\<close>

lemma lhdr_PQ_segment:
  "lhdr_PQ cv l =
     clip (if itmo_segment cv l = 1 then cs1 cv * l + ca1 cv
           else if itmo_segment cv l = 2 then cs2 cv * l + ca2 cv
           else cs3 cv * l + ca3 cv) ymin ymax"
  by (simp add: lhdr_PQ_def itmo_segment_def Let_def)

lemma lhdr_PQ_mono_same_segment:
  assumes "0 \<le> cs1 cv" "0 \<le> cs2 cv" "0 \<le> cs3 cv" "x \<le> y"
    "itmo_segment cv x = itmo_segment cv y"
  shows "lhdr_PQ cv x \<le> lhdr_PQ cv y"
proof -
  have m: "clip a ymin ymax \<le> clip b ymin ymax" if "a \<le> b" for a b
    using that by (auto simp: clip_def min_def max_def)
  show ?thesis
    unfolding lhdr_PQ_segment assms(5)
    using assms(1-4) by (auto intro!: m mult_left_mono)
qed

text \<open>
  C3, as stated, fails for the fixed curve of the TMO: at the breakpoint 0.4597 the
  third segment starts below the end of the second.
\<close>

theorem tmo_piecewise_not_monotone:
  "(0.45969 :: real) \<le> 0.4597 \<and> \<not> tmo_piecewise 0.45969 \<le> tmo_piecewise 0.4597"
  by (simp add: tmo_piecewise_def Let_def)

lemma tmo_piecewise_mono_below:
  assumes "x \<le> y" "y < 0.4597"
  shows "tmo_piecewise x \<le> tmo_piecewise y"
  using assms by (auto simp: tmo_piecewise_def Let_def)

lemma tmo_piecewise_mono_above:
  assumes "x \<le> y" "0.4597 \<le> x"
  shows "tmo_piecewise x \<le> tmo_piecewise y"
  using assms by (auto simp: tmo_piecewise_def Let_def)

lemma tmo_piecewise_drop:
  assumes "x \<le> y"
  shows "tmo_piecewise x \<le> tmo_piecewise y + 0.00005544"
  using assms by (auto simp: tmo_piecewise_def Let_def)

text \<open>
  C3, amended: the fixed curve of the TMO is non-decreasing on the inputs below 0.4597
  and on the inputs from 0.4597 on, and over all inputs it decreases by at most
  0.00005544; the curve of the ITMO, for slopes that are positive, is non-decreasing
  over inputs that its two masks assign to the same segment.
\<close>

theorem piecewise_curves_monotone_by_segment:
  assumes "x \<le> y"
  shows "(y < 0.4597 \<or> 0.4597 \<le> x \<longrightarrow> tmo_piecewise x \<le> tmo_piecewise y) \<and>
         tmo_piecewise x \<le> tmo_piecewise y + 0.00005544 \<and>
         (itmo_curve p1 p2 p3 wB wC = Inr cv \<and> 0 < cs1 cv \<and> 0 < cs2 cv \<and> 0 < cs3 cv \<and>
          itmo_segment cv x = itmo_segment cv y
            \<longrightarrow> lhdr_PQ cv x \<le> lhdr_PQ cv y)"
  using assms tmo_piecewise_mono_below[of x y] tmo_piecewise_mono_above[of x y]
    tmo_piecewise_drop[of x y] lhdr_PQ_mono_same_segment[of cv x y]
  by auto

text \<open>
  At the inputs 0.05 and 0.1 and the curve of the example: both inputs are in the first
  segment, although only the first of them is below \<open>x2\<close>.
\<close>

theorem piecewise_curves_monotone_by_segment_witness:
  "(0.05 :: real) \<le> 0.1 \<and> (0.1 :: real) < 0.4597 \<and> tmo_piecewise 0.05 \<le> tmo_piecewise 0.1 \<and>
   tmo_piecewise 0.05 \<le> tmo_piecewise 0.1 + 0.00005544 \<and>
   itmo_curve 0 0 1 (1 / 400) (1 / 2) = Inr example_curve \<and>
   0 < cs1 example_curve \<and> 0 < cs2 example_curve \<and> 0 < cs3 example_curve \<and>
   itmo_segment example_curve 0.05 = 1 \<and> itmo_segment example_curve 0.1 = 1 \<and>
   0.05 < cx2 example_curve \<and> \<not> 0.1 < cx2 example_curve \<and>
   lhdr_PQ example_curve 0.05 \<le> lhdr_PQ example_curve 0.1"
proof -
  have m: "itmo_segment example_curve 0.05 = 1" "itmo_segment example_curve 0.1 = 1"
      "0.05 < cx2 example_curve" "\<not> 0.1 < cx2 example_curve"
    by (simp_all add: itmo_segment_def example_curve_def)
  have le: "(0.05 :: real) \<le> 0.1" by simp
  show ?thesis
    using piecewise_curves_monotone_by_segment[OF le, of 0 0 1 "1 / 400" "1 / 2" example_curve]
      itmo_curve_example example_curve_drop m
    by simp
qed

section \<open>Range containment\<close>

lemma from_pq_unit:
  assumes "0 \<le> P" "P \<le> 1"
  shows "\<exists>v. from_pq P = Inr v"
proof -
  have "(max P 0) powr (1 / M_PQ) \<le> 1"
    using assms by (intro powr_le1) (simp_all add: M_PQ_def)
  then have "0 < tmo_c2_PQ - tmo_c3_PQ * ((max P 0) powr (1 / M_PQ))"
    by (simp add: tmo_c2_PQ_def tmo_c3_PQ_def)
  then show ?thesis
    by (simp add: from_pq_def Let_def)
qed

lemma img_SDR_Normalized_default:
  "\<exists>u. img_SDR_Normalized tmo_defaults v = Inr u \<and> 0 \<le> u \<and> u \<le> 1"
proof -
  let ?P = "clip v (sDRmin_PQ tmo_defaults) (sDRmax_PQ tmo_defaults)"
  have "0 \<le> ?P" "?P \<le> 1"
    using clip_range[of "sDRmin_PQ tmo_defaults" "sDRmax_PQ tmo_defaults" v]
    by (simp_all add: tmo_defaults_def)
  then obtain lin where lin: "from_pq ?P = Inr lin"
    using from_pq_unit by blast
  have c: "1 / 10 \<le> clip lin (1 / 10) 100" "clip lin (1 / 10) 100 \<le> 100"
    using clip_range[of "1 / 10" 100 lin] by simp_all
  have s: "sDRmin tmo_defaults = 1 / 10" "sDRmax tmo_defaults = 100"
    by (simp_all add: tmo_defaults_def)
  have e: "img_SDR_Normalized tmo_defaults v = Inr ((clip lin (1 / 10) 100 - 1 / 10) / (100 - 1 / 10))"
    by (simp add: img_SDR_Normalized_def lin s)
  have "0 \<le> (clip lin (1 / 10) 100 - 1 / 10) / (100 - 1 / 10)"
    using c by (intro divide_nonneg_pos) simp_all
  moreover have "(clip lin (1 / 10) 100 - 1 / 10) / (100 - 1 / 10) \<le> 1"
    using c by simp
  ultimately show ?thesis using e by blast
qed

lemma gamma_encode_default:
  assumes "0 \<le> v" "v \<le> 1"
  shows "\<exists>u. gamma_encode tmo_defaults v = Inr u \<and> 0 \<le> u \<and> u \<le> 1"
proof -
  have g: "gammaSDR tmo_defaults = 2.2" by (simp add: tmo_defaults_def)
  have "v powr (1 / 2.2) \<le> 1" using assms by (intro powr_le1) simp_all
  then show ?thesis
    by (simp add: gamma_encode_def g)
qed

lemma y_HDR_PQ_default_pos: "0 < y_HDR_PQ tmo_defaults px"
proof -
  obtain r g b where px: "px = (r, g, b)" by (cases px)
  have h: "hDRmin_PQ tmo_defaults = 0.0215" "hDRmax_PQ tmo_defaults = 0.7518"
    by (simp_all add: tmo_defaults_def)
  have "0.0215 \<le> clip r 0.0215 0.7518" "0.0215 \<le> clip g 0.0215 0.7518"
       "0.0215 \<le> clip b 0.0215 0.7518"
    using clip_range[of "0.0215" "0.7518"] by simp_all
  then show ?thesis
    by (simp add: y_HDR_PQ_def imgIn_HDR_PQ_def px h)
qed

lemma tmo_scaled_default: "\<exists>v. tmo_scaled tmo_defaults mappingCurve px = Inr v"
proof -
  have "y_SDR_PQ mappingCurve (y_HDR_PQ tmo_defaults px) =
          Inr (if mappingCurve = ''PiecewiseLinear'' then tmo_piecewise (y_HDR_PQ tmo_defaults px)
               else 0.6012 * y_HDR_PQ tmo_defaults px powr 0.5902)"
    using y_HDR_PQ_default_pos[of px] by (simp add: y_SDR_PQ_def Let_def)
  then show ?thesis
    by (auto simp: tmo_scaled_def Let_def split: prod.splits)
qed

lemma imgOut_709_range: "in_range 0 1 (imgOut_709 px)"
  using clip_range[of 0 1] by (auto simp: imgOut_709_def in_range_def split: prod.splits)

lemma tmo_pixel_default:
  "\<exists>v. tmo_pixel tmo_defaults mappingCurve px = Inr v \<and> in_range 0 1 v"
proof -
  obtain r g b where sc: "tmo_scaled tmo_defaults mappingCurve px = Inr (r, g, b)"
    using tmo_scaled_default[of mappingCurve px] by (metis prod_cases3)
  obtain r1 g1 b1 where n:
    "img_SDR_Normalized tmo_defaults r = Inr r1" "img_SDR_Normalized tmo_defaults g = Inr g1"
    "img_SDR_Normalized tmo_defaults b = Inr b1"
    using img_SDR_Normalized_default by metis
  obtain r2 g2 b2 where o: "imgOut_709 (r1, g1, b1) = (r2, g2, b2)"
    by (metis prod_cases3)
  have "in_range 0 1 (r2, g2, b2)" using imgOut_709_range[of "(r1, g1, b1)"] o by simp
  then have rg: "0 \<le> r2" "r2 \<le> 1" "0 \<le> g2" "g2 \<le> 1" "0 \<le> b2" "b2 \<le> 1"
    by (simp_all add: in_range_def)
  obtain r3 where r3: "gamma_encode tmo_defaults r2 = Inr r3" "0 \<le> r3" "r3 \<le> 1"
    using gamma_encode_default[OF rg(1,2)] by blast
  obtain g3 where g3: "gamma_encode tmo_defaults g2 = Inr g3" "0 \<le> g3" "g3 \<le> 1"
    using gamma_encode_default[OF rg(3,4)] by blast
  obtain b3 where b3: "gamma_encode tmo_defaults b2 = Inr b3" "0 \<le> b3" "b3 \<le> 1"
    using gamma_encode_default[OF rg(5,6)] by blast
  have "tmo_pixel tmo_defaults mappingCurve px = Inr (r3, g3, b3)"
    by (simp add: tmo_pixel_def sc n o r3 g3 b3)
  then show ?thesis using r3 g3 b3 by (simp add: in_range_def)
qed

lemma proposed_tmo_default:
  "\<exists>sdr. proposed_tmo hdr mappingCurve tmo_defaults = Inr sdr \<and> length sdr = length hdr \<and>
         list_all (in_range 0 1) sdr"
proof -
  obtain f where f: "\<And>px. tmo_pixel tmo_defaults mappingCurve px = Inr (f px) \<and> in_range 0 1 (f px)"
    using tmo_pixel_default[of mappingCurve] by metis
  have "collect (map (tmo_pixel tmo_defaults mappingCurve) hdr) = Inr (map f hdr)"
    by (rule collect_map_Inr) (simp add: f)
  moreover have "gammaSDR tmo_defaults \<noteq> 0" by (simp add: tmo_defaults_def)
  ultimately show ?thesis
    using f by (simp add: proposed_tmo_def list_all_iff)
qed

lemma imgOut_norm2020_range: "in_range 0 1 (imgOut_norm2020 px)"
  using clip_range[of 0 1] by (auto simp: imgOut_norm2020_def in_range_def split: prod.splits)

lemma itmo_HDR_PQ_range:
  assumes "itmo_HDR_PQ input_frame bd wB wC = Inr hdr"
  shows "length hdr = length input_frame \<and> list_all (in_range hDR_Min_PQ hDR_Max_PQ) hdr"
proof -
  obtain cv where cv: "collect (map (HDR_PQ cv bd) input_frame) = Inr hdr"
    using assms by (auto simp: itmo_HDR_PQ_def split: sum.splits prod.splits)
  then have m: "map (HDR_PQ cv bd) input_frame = map Inr hdr" by (rule collect_Inr)
  then have l: "length hdr = length input_frame" by (metis length_map)
  have "in_range hDR_Min_PQ hDR_Max_PQ v" if "v \<in> set hdr" for v
  proof -
    have "Inr v \<in> set (map (HDR_PQ cv bd) input_frame)" using that m by simp
    then obtain px where "HDR_PQ cv bd px = Inr v" by auto
    then show ?thesis using HDR_PQ_Inr[of cv bd px] by auto
  qed
  then show ?thesis using l by (simp add: list_all_iff)
qed

lemma itmo_zero_weights: "itmo_curve p1 p2 p3 0 0 = Inl NonFinite"
  by (simp add: itmo_curve_def Let_def cong: let_weak_cong)

text \<open>
  C2, as stated, fails for the weight pair \<open>(0, 0)\<close>: the first denominator of the solve is
  zero, numpy divides zero by zero, and the result holds no number in \<open>[0, 1]\<close>.
\<close>

theorem itmo_zero_weights_not_in_range:
  "proposed_itmo [(0, 0, 0)] 8 0 0 = Inl NonFinite \<and>
   \<not> (\<exists>out. proposed_itmo [(0, 0, 0)] 8 0 0 = Inr out \<and> list_all (in_range 0 1) out)"
proof -
  have "region_probs n \<noteq> Inl e" if "length n = 256" for n e
    using that by (simp add: region_probs_def Let_def threshold_high_def)
  then have "proposed_itmo [(0, 0, 0)] 8 0 0 = Inl NonFinite"
    by (auto simp: proposed_itmo_def itmo_HDR_PQ_def n_light_counts itmo_zero_weights
        split: sum.splits prod.splits)
  then show ?thesis by simp
qed

text \<open>
  C2, amended: whenever the ITMO returns an array of numbers (no denominator of the
  solve is zero), the PQ channels before the gamut matrix lie in \<open>[0.0215, 0.7518]\<close> and
  the output lies in \<open>[0, 1]\<close> in every channel; for every HDR input and either curve the
  TMO with its default parameters returns an output in \<open>[0, 1]\<close> in every channel.
\<close>

theorem operators_range_containment:
  assumes "proposed_itmo input_frame input_bit_depth wB wC = Inr out"
  shows "(\<exists>hdr. itmo_HDR_PQ input_frame input_bit_depth wB wC = Inr hdr \<and>
            length hdr = length input_frame \<and>
            list_all (in_range 0.0215 0.7518) hdr \<and>
            out = map imgOut_norm2020 hdr \<and> list_all (in_range 0 1) out) \<and>
         (\<exists>sdr. proposed_tmo imgIn_HDR mappingCurve tmo_defaults = Inr sdr \<and>
            length sdr = length imgIn_HDR \<and> list_all (in_range 0 1) sdr)"
proof -
  obtain hdr where hdr: "itmo_HDR_PQ input_frame input_bit_depth wB wC = Inr hdr"
      "out = map imgOut_norm2020 hdr"
    using assms by (auto simp: proposed_itmo_def split: sum.splits)
  have "list_all (in_range 0 1) out"
    using hdr(2) imgOut_norm2020_range by (simp add: list_all_iff)
  then show ?thesis
    using hdr itmo_HDR_PQ_range[OF hdr(1)] proposed_tmo_default[of imgIn_HDR mappingCurve]
    by (simp add: hDR_Min_PQ_def hDR_Max_PQ_def)
qed

section \<open>The ITMO on an all-white pixel\<close>

lemma to_pq_100_ge: "84381 / 212500 \<le> to_pq 100"
proof -
  let ?t = "(1 / 100 :: real) powr n_PQ"
  have "(0.46 :: real) \<le> (1 / 100) powr (real 1 / real 6)"
    by (rule powr_rat_ge) (simp_all add: power_divide)
  also have "\<dots> \<le> ?t"
    by (rule powr_mono') (simp_all add: n_PQ_def)
  finally have t: "0.46 \<le> ?t" .
  have "(99 / 100 :: real) \<le> pq_ratio 0.46"
    by (simp add: pq_ratio_def c1_PQ_def c2_PQ_def c3_PQ_def)
  also have "\<dots> \<le> pq_ratio ?t"
    using t by (intro pq_ratio_mono) simp_all
  finally have q: "99 / 100 \<le> pq_ratio ?t" .
  have "(84381 / 212500 :: real) \<le> (99 / 100) ^ 79"
    by (simp add: power_divide)
  also have "\<dots> = (99 / 100 :: real) powr 79"
    by simp
  also have "\<dots> \<le> (99 / 100 :: real) powr m_PQ"
    by (rule powr_mono') (simp_all add: m_PQ_def)
  also have "\<dots> \<le> pq_ratio ?t powr m_PQ"
    using q by (intro powr_mono2) (simp_all add: m_PQ_def)
  finally show ?thesis by (simp add: to_pq_eq)
qed

lemma edge_192: "hist_edges (centers 8) ! 192 = 84381 / 212500"
proof -
  have "2 \<le> length (centers 8)" "1 \<le> (192::nat)" "192 < length (centers 8)"
    by (simp_all add: length_centers)
  then have "hist_edges (centers 8) ! 192 = (centers 8 ! (192 - 1) + centers 8 ! 192) / 2"
    by (rule hist_edges_mid)
  then show ?thesis
    by (simp add: centers_def num_bins_def nth_linspace xmin_def xmax_def)
qed

lemma L_disp_white: "L_disp 8 (255, 255, 255) = 100"
  by (simp add: L_disp_def y_SDR_def img_light_def img_normalized_def clip_def minValueY_def
      maxValueY_def scale_def disp_Min_def disp_Max_def)


lemma l_disp_PQ_white: "l_disp_PQ 8 (255, 255, 255) = to_pq 100"
  by (simp add: l_disp_PQ_def L_disp_white)

lemma sum_list_map_upt: "sum_list (map f [0..<k]) = (\<Sum>i = 0..<k. (f i :: real))"
  by (simp add: interv_sum_list_conv_sum_set_nat)

lemma white_frame_probs:
  "\<exists>n. n_light [(255, 255, 255)] 8 = Inr n \<and> region_probs n = Inr (0, 0, 1)"
proof -
  let ?es = "hist_edges (centers 8)"
  define xs where "xs = map (l_disp_PQ 8) [(255, 255, 255)]"
  define f where "f = (\<lambda>i. real (length (filter (in_bin ?es i) xs)))"
  define n where "n = map f [0..<256]"
  have n: "n_light [(255, 255, 255)] 8 = Inr n"
    unfolding n_def f_def xs_def using n_light_counts[of "[(255, 255, 255)]" 8] by simp
  have l: "length ?es = 257"
    using centers_nonempty[of 8] by (simp add: length_hist_edges length_centers)
  have ln: "length n = 256" by (simp add: n_def)
  have tot: "sum_list n = 1"
    using n_light_8_total[OF n] by simp
  have v: "?es ! 192 \<le> to_pq 100"
    using to_pq_100_ge by (simp add: edge_192)
  have "?es ! 35 \<le> ?es ! 192"
    using sorted_edges[of 8] l by (intro sorted_nth_mono) simp_all
  then have v35: "?es ! 35 \<le> to_pq 100" using v by simp
  have xs: "xs = [to_pq 100]" by (simp add: xs_def l_disp_PQ_white)
  have "sum_list (map f [0..<35]) = real (length (filter (\<lambda>u. ?es ! 0 \<le> u \<and> u < ?es ! 35) xs))"
    unfolding f_def by (rule bins_prefix) (simp_all add: sorted_edges l)
  also have "\<dots> = 0" using v35 by (simp add: xs)
  finally have a: "(\<Sum>i = 0..<35. f i) = 0" by (simp only: sum_list_map_upt)
  have "sum_list (map f [0..<192]) = real (length (filter (\<lambda>u. ?es ! 0 \<le> u \<and> u < ?es ! 192) xs))"
    unfolding f_def by (rule bins_prefix) (simp_all add: sorted_edges l)
  also have "\<dots> = 0" using v by (simp add: xs)
  finally have b: "(\<Sum>i = 0..<192. f i) = 0" by (simp only: sum_list_map_upt)
  have "(\<Sum>i = 0..<192. f i) = (\<Sum>i = 0..<35. f i) + (\<Sum>i = 35..<192. f i)"
    by (simp add: sum.atLeastLessThan_concat)
  then have c: "(\<Sum>i = 35..<192. f i) = 0" using a b by simp
  have "(\<Sum>i = 0..<256. f i) = (\<Sum>i = 0..<192. f i) + (\<Sum>i = 192..<256. f i)"
    by (simp add: sum.atLeastLessThan_concat)
  moreover have "(\<Sum>i = 0..<256. f i) = 1"
    using tot unfolding n_def by (simp only: sum_list_map_upt)
  ultimately have d: "(\<Sum>i = 192..<256. f i) = 1" using b by simp
  have nth: "(\<Sum>i = lo..<hi. n ! i) = (\<Sum>i = lo..<hi. f i)" if "hi \<le> 256" for lo hi
    using that unfolding n_def by (intro sum.cong) simp_all
  have "region_probs n = Inr (0, 0, 1)"
    using region_probs_sums[of n] tot
    by (simp add: threshold_high_def ln nth a c d)
  then show ?thesis using n by blast
qed

lemma white_frame_itmo:
  "\<exists>out. proposed_itmo [(255, 255, 255)] 8 (1 / 400) (1 / 2) = Inr out"
proof -
  obtain n where n: "n_light [(255, 255, 255)] 8 = Inr n" "region_probs n = Inr (0, 0, 1)"
    using white_frame_probs by blast
  obtain v where v: "HDR_PQ example_curve 8 (255, 255, 255) = Inr v"
    using HDR_PQ_Inr by blast
  show ?thesis
    by (simp add: proposed_itmo_def itmo_HDR_PQ_def n itmo_curve_example v)
qed

text \<open>
  At an all-white 8-bit pixel with the weights \<open>1 / 400\<close> and \<open>1 / 2\<close>, where the solve
  succeeds, and at a mid-grey HDR pixel.
\<close>

theorem operators_range_containment_witness:
  "(\<exists>out hdr. proposed_itmo [(255, 255, 255)] 8 (1 / 400) (1 / 2) = Inr out \<and>
      itmo_HDR_PQ [(255, 255, 255)] 8 (1 / 400) (1 / 2) = Inr hdr \<and> length hdr = 1 \<and>
      list_all (in_range 0.0215 0.7518) hdr \<and>
      out = map imgOut_norm2020 hdr \<and> list_all (in_range 0 1) out) \<and>
   (\<exists>sdr. proposed_tmo [(1 / 2, 1 / 2, 1 / 2)] ''PiecewiseLinear'' tmo_defaults = Inr sdr \<and>
      length sdr = 1 \<and> list_all (in_range 0 1) sdr)"
proof -
  obtain out where out: "proposed_itmo [(255, 255, 255)] 8 (1 / 400) (1 / 2) = Inr out"
    using white_frame_itmo by blast
  show ?thesis
    using operators_range_containment[OF out, of "[(1 / 2, 1 / 2, 1 / 2)]" "''PiecewiseLinear''"] out
    by auto
qed

end
